theory Spec2Isabelle
  imports Complex_Main "HOL-Library.Multiset"
begin

section \<open>JavaScript values as the script receives them\<close>

text \<open>
  The script \<^verbatim>\<open>static/script.js\<close> reads three text inputs, posts them to
  \<^verbatim>\<open>/analyze_player\<close> and renders the parsed JSON answer into the page. The model
  below follows the file function by function.

  A JavaScript number is an IEEE double. Every finite double is a rational number, and the
  script only compares scores with the literals 75 and 45, tests them for truthiness, takes
  the sign of a difference and formats them with \<^verbatim>\<open>toFixed(2)\<close>; each of these
  is determined by the exact value of the double. A finite number is therefore modelled by
  its exact value, a \<^typ>\<open>real\<close> (a superset of the doubles; \<^verbatim>\<open>-0\<close> and
  \<^verbatim>\<open>+0\<close> coincide, and nothing in the script tells them apart).
\<close>

datatype jsnum = NaN | PInf | NInf | Fin real

text \<open>
  What \<^verbatim>\<open>JSON.parse\<close> returns. An object is the association list of its own
  properties, read with \<^const>\<open>map_of\<close>; its prototype is \<^verbatim>\<open>Object.prototype\<close>,
  and none of its own properties is callable. The value \<^verbatim>\<open>undefined\<close> (a property
  that is absent) is \<^const>\<open>None\<close> of the option type.
\<close>

datatype json =
    JNull
  | JBool bool
  | JNum jsnum
  | JStr string
  | JArr "json list"
  | JObj "(string \<times> json) list"

type_synonym jsval = "json option"

text \<open>
  The exceptions the script can meet. A \<^verbatim>\<open>TypeError\<close> raised by the engine has a
  message whose wording differs between engines, so the wording is a parameter.
\<close>

datatype type_error =
    ReadNullish jsval string  \<comment> \<open>reading the named property of \<^verbatim>\<open>null\<close> or \<^verbatim>\<open>undefined\<close>\<close>
  | NotAFunction string       \<comment> \<open>calling the named expression, whose value is not callable\<close>
  | NotPrimitive              \<comment> \<open>converting an object that has no usable \<^verbatim>\<open>toString\<close>\<close>

text \<open>
  The host: the parts of ECMAScript that are not in the repository and that the model
  does not spell out.
  \<^item> \<open>number_to_string\<close>: \<^verbatim>\<open>Number::toString\<close> on a finite number that is not an
    integer below \<open>2\<^sup>5\<^sup>3\<close> (shortest round-trip digits of the double);
  \<^item> \<open>string_to_number\<close>: \<^verbatim>\<open>StringToNumber\<close>, used when a score is not a number;
  \<^item> \<open>type_error_message\<close>: the \<^verbatim>\<open>message\<close> of an engine-raised \<^verbatim>\<open>TypeError\<close>.
\<close>

record engine =
  number_to_string :: "real \<Rightarrow> string"
  string_to_number :: "string \<Rightarrow> jsnum"
  type_error_message :: "type_error \<Rightarrow> string"

text \<open>An exception is known to the script only through its \<^verbatim>\<open>message\<close>. An
  expression that may throw has a value in \<open>exn + 'a\<close>; \<open>and_then\<close> evaluates the next
  expression only when the first one returned.\<close>

type_synonym exn = string

definition and_then :: "exn + 'a \<Rightarrow> ('a \<Rightarrow> exn + 'b) \<Rightarrow> exn + 'b" where
  "and_then m k = (case m of Inl e \<Rightarrow> Inl e | Inr x \<Rightarrow> k x)"

text \<open>The values of a list of expressions evaluated from left to right, or the first
  exception.\<close>

fun collect :: "(exn + 'a) list \<Rightarrow> exn + 'a list" where
  "collect [] = Inr []"
| "collect (Inl e # rest) = Inl e"
| "collect (Inr x # rest) = (case collect rest of Inl e \<Rightarrow> Inl e | Inr xs \<Rightarrow> Inr (x # xs))"

subsection \<open>Decimal digits\<close>

definition digit_char :: "nat \<Rightarrow> char" where
  "digit_char d = ''0123456789'' ! (d mod 10)"

fun digits :: "nat \<Rightarrow> string" where
  "digits n = (if n < 10 then [digit_char n] else digits (n div 10) @ [digit_char (n mod 10)])"

declare digits.simps [simp del]

subsection \<open>Conversions of ECMAScript\<close>

text \<open>\<^verbatim>\<open>ToBoolean\<close>: the falsy values are \<^verbatim>\<open>undefined\<close>, \<^verbatim>\<open>null\<close>,
  \<^verbatim>\<open>false\<close>, zero, \<^verbatim>\<open>NaN\<close> and the empty string.\<close>

fun truthy :: "jsval \<Rightarrow> bool" where
  "truthy None = False"
| "truthy (Some JNull) = False"
| "truthy (Some (JBool b)) = b"
| "truthy (Some (JNum NaN)) = False"
| "truthy (Some (JNum (Fin q))) = (q \<noteq> 0)"
| "truthy (Some (JNum _)) = True"
| "truthy (Some (JStr s)) = (s \<noteq> [])"
| "truthy (Some (JArr _)) = True"
| "truthy (Some (JObj _)) = True"

text \<open>\<^verbatim>\<open>Number::toString\<close>. An integer below \<open>2\<^sup>5\<^sup>3\<close> prints as its decimal
  digits; other finite numbers are left to the host.\<close>

definition num_to_string :: "engine \<Rightarrow> jsnum \<Rightarrow> string" where
  "num_to_string E n =
     (case n of
        NaN \<Rightarrow> ''NaN''
      | PInf \<Rightarrow> ''Infinity''
      | NInf \<Rightarrow> ''-Infinity''
      | Fin q \<Rightarrow>
          if q = of_int \<lfloor>q\<rfloor> \<and> \<bar>q\<bar> < 2 ^ 53
          then (if q < 0 then ''-'' else '''') @ digits (nat \<bar>\<lfloor>q\<rfloor>\<bar>)
          else number_to_string E q)"

text \<open>\<^verbatim>\<open>Array.prototype.join\<close> with the separator \<^verbatim>\<open>","\<close>, on the strings of
  the elements.\<close>

fun join_comma :: "string list \<Rightarrow> string" where
  "join_comma [] = []"
| "join_comma [s] = s"
| "join_comma (s # t # ss) = s @ '','' @ join_comma (t # ss)"

text \<open>
  \<^verbatim>\<open>ToString\<close> of a parsed value. A primitive prints as itself. An array goes through
  \<^verbatim>\<open>Array.prototype.toString\<close>, which joins the strings of its elements with commas,
  \<^verbatim>\<open>null\<close> elements printing as the empty string. An object goes through
  \<^verbatim>\<open>OrdinaryToPrimitive\<close>: when it has no own property \<^verbatim>\<open>toString\<close>,
  \<^verbatim>\<open>Object.prototype.toString\<close> answers \<^verbatim>\<open>[object Object]\<close>; when it has one, that
  property is a parsed value and so not callable, \<^verbatim>\<open>valueOf\<close> (its own, not callable,
  or the inherited one, which returns the object) gives no primitive either, and a
  \<^verbatim>\<open>TypeError\<close> is thrown. The same holds with the hint \<^verbatim>\<open>number\<close>, where
  \<^verbatim>\<open>valueOf\<close> is tried first.
\<close>

fun json_to_string :: "engine \<Rightarrow> json \<Rightarrow> exn + string" where
  "json_to_string E JNull = Inr ''null''"
| "json_to_string E (JBool b) = Inr (if b then ''true'' else ''false'')"
| "json_to_string E (JNum n) = Inr (num_to_string E n)"
| "json_to_string E (JStr s) = Inr s"
| "json_to_string E (JArr vs) =
     (case collect (map (\<lambda>v. if v = JNull then Inr [] else json_to_string E v) vs) of
        Inl e \<Rightarrow> Inl e
      | Inr ss \<Rightarrow> Inr (join_comma ss))"
| "json_to_string E (JObj kvs) =
     (if map_of kvs ''toString'' = None then Inr ''[object Object]''
      else Inl (type_error_message E NotPrimitive))"

definition ToString :: "engine \<Rightarrow> jsval \<Rightarrow> exn + string" where
  "ToString E v = (case v of None \<Rightarrow> Inr ''undefined'' | Some j \<Rightarrow> json_to_string E j)"

text \<open>\<^verbatim>\<open>ToNumber\<close>: an array or object goes through its string.\<close>

definition ToNumber :: "engine \<Rightarrow> jsval \<Rightarrow> exn + jsnum" where
  "ToNumber E v =
     (case v of
        None \<Rightarrow> Inr NaN
      | Some JNull \<Rightarrow> Inr (Fin 0)
      | Some (JBool b) \<Rightarrow> Inr (Fin (if b then 1 else 0))
      | Some (JNum n) \<Rightarrow> Inr n
      | Some (JStr s) \<Rightarrow> Inr (string_to_number E s)
      | Some j \<Rightarrow> and_then (json_to_string E j) (\<lambda>s. Inr (string_to_number E s)))"

text \<open>\<^verbatim>\<open>x >= c\<close> for a finite literal \<open>c\<close>: false when \<open>x\<close> is \<^verbatim>\<open>NaN\<close>.\<close>

fun num_ge :: "jsnum \<Rightarrow> real \<Rightarrow> bool" where
  "num_ge NaN c = False"
| "num_ge PInf c = True"
| "num_ge NInf c = False"
| "num_ge (Fin q) c = (c \<le> q)"

definition js_ge :: "engine \<Rightarrow> jsval \<Rightarrow> real \<Rightarrow> exn + bool" where
  "js_ge E v c = and_then (ToNumber E v) (\<lambda>n. Inr (num_ge n c))"

text \<open>\<^verbatim>\<open>x - y\<close> on numbers. On finite doubles the result is rounded, but its sign,
  the only thing the sort reads, is the sign of the exact difference.\<close>

fun num_sub :: "jsnum \<Rightarrow> jsnum \<Rightarrow> jsnum" where
  "num_sub NaN _ = NaN"
| "num_sub _ NaN = NaN"
| "num_sub PInf PInf = NaN"
| "num_sub NInf NInf = NaN"
| "num_sub PInf _ = PInf"
| "num_sub NInf _ = NInf"
| "num_sub (Fin a) PInf = NInf"
| "num_sub (Fin a) NInf = PInf"
| "num_sub (Fin a) (Fin b) = Fin (a - b)"

fun num_positive :: "jsnum \<Rightarrow> bool" where
  "num_positive PInf = True"
| "num_positive (Fin q) = (0 < q)"
| "num_positive _ = False"

text \<open>Reading a property \<^verbatim>\<open>v.k\<close>: a \<^verbatim>\<open>TypeError\<close> on \<^verbatim>\<open>null\<close> and
  \<^verbatim>\<open>undefined\<close>; on an object its own property; on any other parsed value
  \<^verbatim>\<open>undefined\<close> (none of the names the script reads is a property of
  \<^verbatim>\<open>Object.prototype\<close>, or of a number, a boolean, a string or an array).\<close>

definition get_prop :: "engine \<Rightarrow> jsval \<Rightarrow> string \<Rightarrow> exn + jsval" where
  "get_prop E v k =
     (case v of
        None \<Rightarrow> Inl (type_error_message E (ReadNullish None k))
      | Some JNull \<Rightarrow> Inl (type_error_message E (ReadNullish (Some JNull) k))
      | Some (JObj kvs) \<Rightarrow> Inr (map_of kvs k)
      | Some _ \<Rightarrow> Inr None)"

text \<open>The same read on a value already known not to be \<^verbatim>\<open>null\<close> or
  \<^verbatim>\<open>undefined\<close>.\<close>

definition field :: "json \<Rightarrow> string \<Rightarrow> jsval" where
  "field j k = (case j of JObj kvs \<Rightarrow> map_of kvs k | _ \<Rightarrow> None)"

text \<open>\<^verbatim>\<open>Number.prototype.toFixed(2)\<close>: the integer \<open>n\<close> with \<open>n / 100\<close> nearest to the
  value (the larger one on a tie), printed with two decimals; a value of \<open>10\<^sup>2\<^sup>1\<close> or more,
  and a value that is not finite, prints as \<^verbatim>\<open>ToString\<close> does.\<close>

definition toFixed2 :: "engine \<Rightarrow> jsnum \<Rightarrow> string" where
  "toFixed2 E n =
     (case n of
        Fin q \<Rightarrow>
          (let x = \<bar>q\<bar>; s = (if q < 0 then ''-'' else '''') in
           if 10 ^ 21 \<le> x then s @ num_to_string E (Fin x)
           else
             (let m = nat \<lfloor>x * 100 + 1 / 2\<rfloor>
              in s @ digits (m div 100) @ ''.'' @
                 [digit_char (m div 10 mod 10), digit_char (m mod 10)]))
      | _ \<Rightarrow> num_to_string E n)"

text \<open>\<^verbatim>\<open>v.toFixed(2)\<close> as a method call on an arbitrary value; \<open>what\<close> is the source
  text of the callee, which engines quote in the message. Only a number has a callable
  \<^verbatim>\<open>toFixed\<close>.\<close>

definition call_toFixed :: "engine \<Rightarrow> string \<Rightarrow> jsval \<Rightarrow> exn + string" where
  "call_toFixed E what v =
     (case v of
        None \<Rightarrow> Inl (type_error_message E (ReadNullish None ''toFixed''))
      | Some JNull \<Rightarrow> Inl (type_error_message E (ReadNullish (Some JNull) ''toFixed''))
      | Some (JNum n) \<Rightarrow> Inr (toFixed2 E n)
      | Some _ \<Rightarrow> Inl (type_error_message E (NotAFunction what)))"

text \<open>The string that an assignment to \<^verbatim>\<open>textContent\<close> stores: \<^verbatim>\<open>null\<close> and
  \<^verbatim>\<open>undefined\<close> give the empty text, anything else goes through
  \<^verbatim>\<open>ToString\<close>.\<close>

definition text_of :: "engine \<Rightarrow> jsval \<Rightarrow> exn + string" where
  "text_of E v =
     (case v of None \<Rightarrow> Inr [] | Some JNull \<Rightarrow> Inr [] | Some j \<Rightarrow> json_to_string E j)"

text \<open>\<^verbatim>\<open>a || b\<close>.\<close>

definition js_or :: "jsval \<Rightarrow> jsval \<Rightarrow> jsval" where
  "js_or a b = (if truthy a then a else b)"

section \<open>The page\<close>

text \<open>
  Text typed by the user is a sequence of UTF-16 code units, because \<^verbatim>\<open>trim\<close> is
  defined on code units. Text that comes from the server or from the script's literals is
  only copied, concatenated and compared with the empty string, so it is a \<^typ>\<open>string\<close>,
  byte for byte as in the source file and in the response.
\<close>

type_synonym ustring = "nat list"

text \<open>\<^verbatim>\<open>WhiteSpace\<close> and \<^verbatim>\<open>LineTerminator\<close> of ECMAScript, which
  \<^verbatim>\<open>String.prototype.trim\<close> strips from both ends.\<close>

definition is_white_space :: "nat \<Rightarrow> bool" where
  "is_white_space c =
     (c \<in> {0x9, 0xA, 0xB, 0xC, 0xD, 0x20, 0xA0, 0x1680, 0x2028, 0x2029, 0x202F, 0x205F,
            0x3000, 0xFEFF}
      \<or> (0x2000 \<le> c \<and> c \<le> 0x200A))"

definition trim :: "ustring \<Rightarrow> ustring" where
  "trim s = rev (dropWhile is_white_space (rev (dropWhile is_white_space s)))"

text \<open>What the script does to the world besides writing into the page, in order.
  \<^verbatim>\<open>console.log\<close> is recorded by its label; \<^verbatim>\<open>scrollTo\<close> without its
  offset, which depends on the layout.\<close>

datatype effect =
    PreventDefault
  | Alert string
  | Fetch ustring ustring ustring  \<comment> \<open>\<^verbatim>\<open>player_or_team_input\<close>, \<^verbatim>\<open>year\<close>, \<^verbatim>\<open>week\<close>\<close>
  | ConsoleLog string
  | ConsoleError string
  | ScrollTo

text \<open>A card is the template of \<^verbatim>\<open>createPlayerCardHTML\<close>; its markup is fixed, so
  the card is the tuple of the six interpolated texts.\<close>

record card =
  card_name :: string
  card_position :: string
  card_team :: string
  card_scoreColor :: string
  card_score :: string
  card_conclusion :: string

datatype node = Card card | Paragraph string

text \<open>The elements of the detail box, by their ids.\<close>

record detail_box =
  conclusion :: string
  conclusion_className :: string
  player_name_display :: string
  recommendation_score :: string
  input_year :: string
  input_week :: string
  stat_volume :: string
  stat_yards :: string
  stat_receptions :: string
  stat_td :: string

text \<open>
  The page, as far as the script reads or writes it:
  the values of the three inputs; \<^verbatim>\<open>submitButton.disabled\<close>; the text of
  \<^verbatim>\<open>button-text\<close>; whether \<^verbatim>\<open>spinner\<close> and
  \<^verbatim>\<open>recommendations-section\<close> carry the class \<^verbatim>\<open>hidden\<close>;
  \<^verbatim>\<open>resultsContainer.style.display\<close>; the text of \<^verbatim>\<open>error-message\<close>; the
  children of \<^verbatim>\<open>player-recommendation-list\<close>; the text of
  \<^verbatim>\<open>player-list-header\<close>; the detail box; and the effects so far. Every element
  the script looks up by id is taken to exist.
\<close>

record page =
  player_input :: ustring
  week_input :: ustring
  year_input :: ustring
  submit_disabled :: bool
  button_text :: string
  spinner_hidden :: bool
  recommendations_hidden :: bool
  results_display :: string
  error_message :: string
  player_list :: "node list"
  player_list_header :: string
  detail :: detail_box
  effects :: "effect list"

definition emit :: "effect \<Rightarrow> page \<Rightarrow> page" where
  "emit e st = st\<lparr>effects := effects st @ [e]\<rparr>"

text \<open>
  A statement writes into the page and may throw: it returns the exception, if any, with
  the page as it stands at that point. \<open>step\<close> is a statement that cannot throw,
  \<open>with_value\<close> evaluates an expression and throws what it throws, \<open>assign\<close> stores the
  value of an expression, and \<open>seq\<close> runs the second statement only when the first one
  has not thrown.
\<close>

type_synonym stmt = "page \<Rightarrow> exn option \<times> page"

definition step :: "(page \<Rightarrow> page) \<Rightarrow> stmt" where
  "step f st = (None, f st)"

definition with_value :: "exn + 'a \<Rightarrow> ('a \<Rightarrow> stmt) \<Rightarrow> stmt" where
  "with_value v k st = (case v of Inl e \<Rightarrow> (Some e, st) | Inr x \<Rightarrow> k x st)"

definition assign :: "exn + 'a \<Rightarrow> ('a \<Rightarrow> page \<Rightarrow> page) \<Rightarrow> stmt" where
  "assign v f = with_value v (\<lambda>x. step (f x))"

definition seq :: "stmt \<Rightarrow> stmt \<Rightarrow> stmt" where
  "seq a b st = (case a st of (Some e, st') \<Rightarrow> (Some e, st') | (None, st') \<Rightarrow> b st')"

text \<open>Writing one element of the detail box.\<close>

definition write_detail :: "(detail_box \<Rightarrow> detail_box) \<Rightarrow> page \<Rightarrow> page" where
  "write_detail f st = st\<lparr>detail := f (detail st)\<rparr>"

section \<open>The rendering functions\<close>

subsection \<open>\<^verbatim>\<open>createPlayerCardHTML\<close>\<close>

text \<open>Lines 13 to 18. Each comparison converts the score to a number, which throws for an
  object without a usable \<^verbatim>\<open>toString\<close>.\<close>

definition scoreColor :: "engine \<Rightarrow> jsval \<Rightarrow> exn + string" where
  "scoreColor E score =
     and_then (js_ge E score 75) (\<lambda>top.
       if top then Inr ''text-green-500''
       else and_then (js_ge E score 45) (\<lambda>mid.
         Inr (if mid then ''text-yellow-400'' else ''text-red-500'')))"

text \<open>Line 29: the score shown on the card.\<close>

definition score_text :: "engine \<Rightarrow> jsval \<Rightarrow> exn + string" where
  "score_text E score =
     (if truthy score then call_toFixed E ''playerData.reco_score.toFixed'' score
      else Inr ''--'')"

text \<open>The template literal of lines 20 to 34 converts its substitutions to strings from
  left to right; the first conversion that throws ends the function.\<close>

definition createPlayerCardHTML :: "engine \<Rightarrow> json \<Rightarrow> exn + card" where
  "createPlayerCardHTML E playerData =
     and_then (get_prop E (Some playerData) ''reco_score'') (\<lambda>score.
     and_then (scoreColor E score) (\<lambda>color.
     and_then (ToString E (js_or (field playerData ''player_name'') (Some (JStr ''N/A''))))
       (\<lambda>name.
     and_then (ToString E (js_or (field playerData ''position'') (Some (JStr ''N/A''))))
       (\<lambda>position.
     and_then (ToString E (js_or (field playerData ''team'') (Some (JStr ''N/A''))))
       (\<lambda>team.
     and_then (score_text E score) (\<lambda>shown.
     and_then (ToString E (field playerData ''reco_conclusion'')) (\<lambda>concl.
       Inr \<lparr>card_name = name, card_position = position, card_team = team,
            card_scoreColor = color, card_score = shown, card_conclusion = concl\<rparr>)))))))"

subsection \<open>\<^verbatim>\<open>Array.prototype.sort\<close>\<close>

text \<open>
  The built-in sort, with a comparator that may throw. ECMAScript fixes the result when
  the comparator is consistent: the elements in comparator order, equal elements in their
  original order (stable since ES2019). A stable insertion sort computes it: \<open>x\<close> goes before
  the first \<open>y\<close> for which \<^verbatim>\<open>cmp(x, y) > 0\<close> does not hold. A result of
  \<^verbatim>\<open>NaN\<close> counts as zero. With an inconsistent comparator the order is left to the
  engine, and this function is one such engine.
\<close>

fun insert_sorted :: "('a \<Rightarrow> 'a \<Rightarrow> exn + jsnum) \<Rightarrow> 'a \<Rightarrow> 'a list \<Rightarrow> exn + 'a list" where
  "insert_sorted cmp x [] = Inr [x]"
| "insert_sorted cmp x (y # ys) =
     (case cmp x y of
        Inl e \<Rightarrow> Inl e
      | Inr v \<Rightarrow>
          if num_positive v
          then (case insert_sorted cmp x ys of Inl e \<Rightarrow> Inl e | Inr zs \<Rightarrow> Inr (y # zs))
          else Inr (x # y # ys))"

fun array_sort :: "('a \<Rightarrow> 'a \<Rightarrow> exn + jsnum) \<Rightarrow> 'a list \<Rightarrow> exn + 'a list" where
  "array_sort cmp [] = Inr []"
| "array_sort cmp (x # xs) =
     (case array_sort cmp xs of Inl e \<Rightarrow> Inl e | Inr ys \<Rightarrow> insert_sorted cmp x ys)"

text \<open>The comparator \<^verbatim>\<open>(a, b) => b.reco_score - a.reco_score\<close>: both properties are
  read, then both are converted to numbers.\<close>

definition compare_scores :: "engine \<Rightarrow> json \<Rightarrow> json \<Rightarrow> exn + jsnum" where
  "compare_scores E a b =
     and_then (get_prop E (Some b) ''reco_score'') (\<lambda>sb.
     and_then (get_prop E (Some a) ''reco_score'') (\<lambda>sa.
     and_then (ToNumber E sb) (\<lambda>nb.
     and_then (ToNumber E sa) (\<lambda>na.
       Inr (num_sub nb na)))))"

subsection \<open>\<^verbatim>\<open>renderPlayerList\<close>\<close>

text \<open>The \<^verbatim>\<open>forEach\<close> of lines 51 to 53: a card that cannot be built ends the loop
  with the cards before it already in the list.\<close>

fun append_cards :: "engine \<Rightarrow> json list \<Rightarrow> stmt" where
  "append_cards E [] st = (None, st)"
| "append_cards E (player # rest) st =
     (case createPlayerCardHTML E player of
        Inl e \<Rightarrow> (Some e, st)
      | Inr c \<Rightarrow> append_cards E rest (st\<lparr>player_list := player_list st @ [Card c]\<rparr>))"

definition list_shown :: "page \<Rightarrow> page" where
  "list_shown st = st\<lparr>results_display := ''none'', recommendations_hidden := False\<rparr>"

definition renderPlayerList :: "engine \<Rightarrow> json list \<Rightarrow> stmt" where
  "renderPlayerList E dataArray =
     seq (step (\<lambda>st. st\<lparr>player_list := []\<rparr>))
    (with_value (case dataArray of
                   [] \<Rightarrow> Inr (Some (JStr ''Team''))
                 | first # _ \<Rightarrow> get_prop E (Some first) ''team'') (\<lambda>teamName.
     let weekDisplay = (case dataArray of
                          [] \<Rightarrow> Some (JStr ''N/A'')
                        | first # _ \<Rightarrow>
                            if truthy (field first ''input_week'') then field first ''input_week''
                            else Some (JStr ''N/A''))
     in
     seq (assign (and_then (ToString E teamName) (\<lambda>t.
                  and_then (ToString E weekDisplay) (\<lambda>w.
                    Inr (''Top Fantasy Options for the '' @ t @ '' (Week '' @ w @ '')''))))
            (\<lambda>h st. st\<lparr>player_list_header := h\<rparr>))
    (with_value (array_sort (compare_scores E) dataArray) (\<lambda>sortedArray.
     seq (if 0 < length sortedArray then append_cards E sortedArray
          else step (\<lambda>st. st\<lparr>player_list :=
                 [Paragraph ''No skill position data found for that team this week.'']\<rparr>))
         (step list_shown)))))"

subsection \<open>\<^verbatim>\<open>renderSinglePlayerDetail\<close>\<close>

text \<open>The three conclusion texts, byte for byte as the source file has them (each starts
  with the bytes of a pictograph).\<close>

definition MUST_START_text :: string where
  "MUST_START_text =
     [CHR 0xC3, CHR 0xB0, CHR 0xC5, CHR 0xB8, CHR 0xE2, CHR 0x80, CHR 0x9D, CHR 0xC2, CHR 0xA5]
     @ '' MUST START (Elite Potential)''"

definition FLEX_text :: string where
  "FLEX_text =
     [CHR 0xC3, CHR 0xB0, CHR 0xC5, CHR 0xB8, CHR 0xC5, CHR 0xB8, CHR 0xC2, CHR 0xA2]
     @ '' FLEX / HIGH POTENTIAL START (Solid Play)''"

definition SIT_text :: string where
  "SIT_text =
     [CHR 0xC3, CHR 0xB0, CHR 0xC5, CHR 0xB8, CHR 0xE2, CHR 0x80, CHR 0x9D, CHR 0xC2, CHR 0xB4]
     @ '' SIT / LOW FLEX (Risky Play)''"

text \<open>The pair \<^verbatim>\<open>(conclusionText, conclusionClass)\<close> of lines 74 to 83.\<close>

definition conclusion_for :: "engine \<Rightarrow> jsval \<Rightarrow> exn + string \<times> string" where
  "conclusion_for E score =
     and_then (js_ge E score 75) (\<lambda>top.
       if top then Inr (MUST_START_text, ''text-green-400 bg-green-900/50'')
       else and_then (js_ge E score 45) (\<lambda>mid.
         Inr (if mid then (FLEX_text, ''text-yellow-400 bg-yellow-900/50'')
              else (SIT_text, ''text-red-400 bg-red-900/50''))))"

text \<open>Lines 64 to 104, statement by statement. The template literals of lines 90 and 91
  and the six assignments of lines 94 to 99 each convert a parsed value to a string.\<close>

definition renderSinglePlayerDetail :: "engine \<Rightarrow> json \<Rightarrow> stmt" where
  "renderSinglePlayerDetail E data =
     seq (step (\<lambda>st. st\<lparr>player_list := [], player_list_header := ''Detailed Player Analysis''\<rparr>))
    (with_value (get_prop E (Some data) ''reco_score'') (\<lambda>score.
     seq (assign (conclusion_for E score)
            (\<lambda>c. write_detail (\<lambda>d. d\<lparr>conclusion := fst c,
                 conclusion_className :=
                   ''font-body text-xl font-bold p-2 rounded-md '' @ snd c\<rparr>)))
    (seq (assign (and_then (ToString E (field data ''player_name'')) (\<lambda>n.
                  and_then (ToString E (field data ''team'')) (\<lambda>t.
                  and_then (ToString E (field data ''position'')) (\<lambda>p.
                    Inr (n @ '' ('' @ t @ '' - '' @ p @ '')'')))))
            (\<lambda>s. write_detail (\<lambda>d. d\<lparr>player_name_display := s\<rparr>)))
    (seq (assign (and_then (call_toFixed E ''score.toFixed'' score) (\<lambda>f. Inr (f @ '' /100'')))
            (\<lambda>s. write_detail (\<lambda>d. d\<lparr>recommendation_score := s\<rparr>)))
    (seq (assign (text_of E (field data ''input_year''))
            (\<lambda>s. write_detail (\<lambda>d. d\<lparr>input_year := s\<rparr>)))
    (seq (assign (text_of E (field data ''input_week''))
            (\<lambda>s. write_detail (\<lambda>d. d\<lparr>input_week := s\<rparr>)))
    (seq (assign (text_of E (field data ''volume''))
            (\<lambda>s. write_detail (\<lambda>d. d\<lparr>stat_volume := s\<rparr>)))
    (seq (assign (text_of E (field data ''yards''))
            (\<lambda>s. write_detail (\<lambda>d. d\<lparr>stat_yards := s\<rparr>)))
    (seq (assign (text_of E (field data ''receptions''))
            (\<lambda>s. write_detail (\<lambda>d. d\<lparr>stat_receptions := s\<rparr>)))
    (seq (assign (text_of E (field data ''td''))
            (\<lambda>s. write_detail (\<lambda>d. d\<lparr>stat_td := s\<rparr>)))
         (step (\<lambda>st. st\<lparr>results_display := ''block'',
                         recommendations_hidden := False\<rparr>))))))))))))"

section \<open>The submit handler\<close>

text \<open>
  What the network gives back is an input of the handler. \<^verbatim>\<open>fetch\<close> either rejects
  (with the message of its error) or resolves to a response, of which the script reads
  \<^verbatim>\<open>ok\<close>, \<^verbatim>\<open>statusText\<close> and \<^verbatim>\<open>json()\<close>; the latter either rejects
  (the body is not JSON; the message is the parser's) or resolves to the parsed value.
  A request that never completes is not a value of this type.
\<close>

datatype body = Unparseable string | Parsed json

record response =
  ok :: bool
  statusText :: string
  json_body :: body

datatype fetch_outcome = Rejected string | Resolved response

text \<open>Lines 146 to 148, and again lines 225 to 227.\<close>

definition restore_button :: "page \<Rightarrow> page" where
  "restore_button st =
     st\<lparr>submit_disabled := False, button_text := ''Analyze Player/Team'',
        spinner_hidden := True\<rparr>"

text \<open>The two statements that every inline error branch and the \<^verbatim>\<open>catch\<close> block
  share: set the text of \<^verbatim>\<open>error-message\<close>, reveal the section.\<close>

definition show_error :: "string \<Rightarrow> page \<Rightarrow> page" where
  "show_error msg st = st\<lparr>error_message := msg, recommendations_hidden := False\<rparr>"

text \<open>\<^verbatim>\<open>Array.isArray\<close>, with the elements when it holds.\<close>

definition as_array :: "json \<Rightarrow> json list option" where
  "as_array data = (case data of JArr vs \<Rightarrow> Some vs | _ \<Rightarrow> None)"

text \<open>Step 4 of the handler (lines 188 to 210): the choice of the view.\<close>

definition dispatch :: "engine \<Rightarrow> json \<Rightarrow> stmt" where
  "dispatch E data st =
     (case as_array data of
        Some vs \<Rightarrow>
          if length vs = 1
          then (if truthy (Some (vs ! 0)) then renderSinglePlayerDetail E (vs ! 0) st
                else (None, show_error ''Error: Single player data was null.'' st))
          else if 1 < length vs then renderPlayerList E vs st
          else (None, show_error
                 ''No player or team data found for your search in the selected week/year.'' st)
      | None \<Rightarrow>
          (None, show_error
             ''Unexpected error: Received data is not a recognized list format.'' st))"

text \<open>The body of the \<^verbatim>\<open>try\<close> block (lines 161 to 216). On a response that is
  not ok, line 174 throws either way: the \<^verbatim>\<open>TypeError\<close> of reading
  \<^verbatim>\<open>errorData.error\<close> or of converting it to a string, or else the
  \<^verbatim>\<open>Error\<close> made from that string. The debugging line
  \<^verbatim>\<open>console.log('Array Length:', data.length)\<close> throws when the parsed value is
  \<^verbatim>\<open>null\<close>.\<close>

definition try_block :: "engine \<Rightarrow> fetch_outcome \<Rightarrow> stmt" where
  "try_block E outcome st =
     (let st1 = emit (Fetch (trim (player_input st)) (trim (year_input st))
                        (trim (week_input st))) st in
      case outcome of
        Rejected msg \<Rightarrow> (Some msg, st1)
      | Resolved r \<Rightarrow>
          if \<not> ok r then
            (let errorData = (case json_body r of
                                Unparseable _ \<Rightarrow> JObj [(''error'', JStr (statusText r))]
                              | Parsed j \<Rightarrow> j) in
             case and_then (get_prop E (Some errorData) ''error'') (\<lambda>err.
                    ToString E (js_or err (Some (JStr (statusText r))))) of
               Inl e \<Rightarrow> (Some e, st1)
             | Inr msg \<Rightarrow> (Some msg, st1))
          else
            (case json_body r of
               Unparseable msg \<Rightarrow> (Some msg, st1)
             | Parsed data \<Rightarrow>
                 (let st2 = emit (ConsoleLog ''Is Array:'')
                              (emit (ConsoleLog ''Received data:'')
                                 (emit (ConsoleLog ''--- ANALYSIS RESULTS ---'') st1)) in
                  if data = JNull
                  then (Some (type_error_message E (ReadNullish (Some JNull) ''length'')), st2)
                  else
                    (case dispatch E data (emit (ConsoleLog ''Array Length:'') st2) of
                       (Some e, st3) \<Rightarrow> (Some e, st3)
                     | (None, st3) \<Rightarrow> (None, emit ScrollTo st3)))))"

text \<open>Lines 127 to 137: the loading state, with the previous results and error hidden.\<close>

definition loading :: "page \<Rightarrow> page" where
  "loading st0 =
     (emit PreventDefault st0)
       \<lparr>submit_disabled := True, button_text := ''Analyzing...'', spinner_hidden := False,
        recommendations_hidden := True, results_display := ''none'', error_message := []\<rparr>"

text \<open>The handler of the form's \<^verbatim>\<open>submit\<close> event (lines 126 to 229): the loading
  state, the validation, the \<^verbatim>\<open>try\<close> block, \<^verbatim>\<open>catch\<close> and
  \<^verbatim>\<open>finally\<close>.\<close>

definition on_submit :: "engine \<Rightarrow> fetch_outcome \<Rightarrow> page \<Rightarrow> page" where
  "on_submit E outcome st0 =
     (let st = loading st0 in
        if trim (player_input st) = [] \<or> trim (week_input st) = [] \<or> trim (year_input st) = []
        then emit (Alert ''Please enter a player name/team, week, and year.'') (restore_button st)
        else
          (case try_block E outcome st of
             (None, st') \<Rightarrow> restore_button st'
           | (Some msg, st') \<Rightarrow> restore_button (show_error msg (emit (ConsoleError msg) st'))))"

section \<open>Notions used in the statements\<close>

text \<open>The three trimmed fields are all non-empty: the negation of the test of line 144.\<close>

definition fields_filled :: "page \<Rightarrow> bool" where
  "fields_filled st =
     (trim (player_input st) \<noteq> [] \<and> trim (week_input st) \<noteq> [] \<and> trim (year_input st) \<noteq> [])"

text \<open>The value converts to a string without an exception.\<close>

definition printable :: "engine \<Rightarrow> jsval \<Rightarrow> bool" where
  "printable E v = (case ToString E v of Inl _ \<Rightarrow> False | Inr _ \<Rightarrow> True)"

text \<open>An object whose \<^verbatim>\<open>reco_score\<close> is a finite number.\<close>

definition scored :: "json \<Rightarrow> bool" where
  "scored p = (case field p ''reco_score'' of Some (JNum (Fin s)) \<Rightarrow> True | _ \<Rightarrow> False)"

definition the_score :: "json \<Rightarrow> real" where
  "the_score p = (case field p ''reco_score'' of Some (JNum (Fin s)) \<Rightarrow> s | _ \<Rightarrow> 0)"

text \<open>A player record in the sense of the specification's data model, as far as the list
  view reads it: the score is a finite number, and the properties printed on a card and in
  the header convert to strings (in the data model they are strings and numbers).\<close>

definition player_record :: "engine \<Rightarrow> json \<Rightarrow> bool" where
  "player_record E p =
     (scored p \<and>
      list_all (\<lambda>k. printable E (field p k))
        [''player_name'', ''position'', ''team'', ''reco_conclusion'', ''input_week''])"

text \<open>The user can read an error message: the text of the error region is not empty and
  the section around it is not hidden.\<close>

definition message_visible :: "page \<Rightarrow> bool" where
  "message_visible st = (error_message st \<noteq> [] \<and> \<not> recommendations_hidden st)"

text \<open>What line 174 hands to the \<^verbatim>\<open>catch\<close> block: the message of the exception met
  while the text was built, or else the text, which becomes the message of the
  \<^verbatim>\<open>Error\<close>.\<close>

definition either_text :: "exn + string \<Rightarrow> string" where
  "either_text m = (case m of Inl e \<Rightarrow> e | Inr s \<Rightarrow> s)"

section \<open>Concrete inputs for the examples\<close>

text \<open>A host with the wording V8 gives its \<^verbatim>\<open>TypeError\<close> messages. None of the
  examples converts a fractional number to a string or a string to a number.\<close>

definition v8_message :: "type_error \<Rightarrow> string" where
  "v8_message t =
     (case t of
        ReadNullish v k \<Rightarrow>
          ''Cannot read properties of '' @ (if v = None then ''undefined'' else ''null'') @
          '' (reading '' @ [CHR 0x27] @ k @ [CHR 0x27] @ '')''
      | NotAFunction what \<Rightarrow> what @ '' is not a function''
      | NotPrimitive \<Rightarrow> ''Cannot convert object to primitive value'')"

definition v8 :: engine where
  "v8 = \<lparr>number_to_string = (\<lambda>_. []), string_to_number = (\<lambda>_. NaN),
          type_error_message = v8_message\<rparr>"

definition ustr :: "string \<Rightarrow> ustring" where
  "ustr s = map of_char s"

text \<open>A page as it may stand before a submission: the form filled in with the given
  texts, nothing rendered yet.\<close>

definition empty_detail :: detail_box where
  "empty_detail =
     \<lparr>conclusion = [], conclusion_className = [], player_name_display = [],
      recommendation_score = [], input_year = [], input_week = [], stat_volume = [],
      stat_yards = [], stat_receptions = [], stat_td = []\<rparr>"

definition filled_page :: "ustring \<Rightarrow> ustring \<Rightarrow> ustring \<Rightarrow> page" where
  "filled_page p w y =
     \<lparr>player_input = p, week_input = w, year_input = y, submit_disabled = False,
      button_text = ''Analyze Player/Team'', spinner_hidden = True,
      recommendations_hidden = True, results_display = ''none'', error_message = [],
      player_list = [], player_list_header = [], detail = empty_detail, effects = []\<rparr>"

definition sample_page :: page where
  "sample_page = filled_page (ustr ''KC'') (ustr ''3'') (ustr ''2024'')"

definition player :: "string \<Rightarrow> real \<Rightarrow> json" where
  "player name score =
     JObj [(''player_name'', JStr name), (''team'', JStr ''KC''), (''position'', JStr ''WR''),
           (''reco_score'', JNum (Fin score)), (''reco_conclusion'', JStr ''ok''),
           (''input_week'', JNum (Fin 3)), (''input_year'', JNum (Fin 2024)),
           (''volume'', JNum (Fin 7)), (''yards'', JNum (Fin 88)),
           (''receptions'', JNum (Fin 5)), (''td'', JNum (Fin 1))]"

definition success :: "json \<Rightarrow> fetch_outcome" where
  "success data = Resolved \<lparr>ok = True, statusText = ''OK'', json_body = Parsed data\<rparr>"

definition failure :: "string \<Rightarrow> body \<Rightarrow> fetch_outcome" where
  "failure status b = Resolved \<lparr>ok = False, statusText = status, json_body = b\<rparr>"

definition blank_page :: page where
  "blank_page = filled_page (ustr ''  '') (ustr ''3'') (ustr ''2024'')"

definition no_week_page :: page where
  "no_week_page = filled_page (ustr ''KC'') (ustr '' '') (ustr ''2024'')"

definition three_players :: json where
  "three_players = JArr [player ''A'' 10, player ''B'' 90, player ''C'' 50]"

definition two_players :: json where
  "two_players = JArr [player ''A'' 10, player ''B'' 90]"

text \<open>A record without a score, and an array that holds it between two scored records.\<close>

definition unscored :: json where
  "unscored =
     JObj [(''player_name'', JStr ''X''), (''team'', JStr ''KC''), (''position'', JStr ''TE''),
           (''reco_conclusion'', JStr ''none'')]"

definition mixed_players :: json where
  "mixed_players = JArr [player ''A'' 10, unscored, player ''B'' 90]"

text \<open>A record whose name is the object \<^verbatim>\<open>{"toString": null}\<close>, which no conversion
  to a string accepts.\<close>

definition odd_name :: json where
  "odd_name =
     JObj [(''player_name'', JObj [(''toString'', JNull)]), (''reco_score'', JNum (Fin 80))]"

definition null_among_players :: json where
  "null_among_players = JArr [player ''A'' 10, JNull]"

section \<open>Reading the page after each step\<close>

lemma loading_inputs [simp]:
  "player_input (loading st) = player_input st"
  "week_input (loading st) = week_input st"
  "year_input (loading st) = year_input st"
  by (simp_all add: loading_def emit_def)

lemma loading_fields [simp]:
  "recommendations_hidden (loading st) = True"
  "results_display (loading st) = ''none''"
  "error_message (loading st) = []"
  "player_list (loading st) = player_list st"
  "player_list_header (loading st) = player_list_header st"
  "detail (loading st) = detail st"
  "effects (loading st) = effects st @ [PreventDefault]"
  by (simp_all add: loading_def emit_def)

lemma restore_button_fields [simp]:
  "submit_disabled (restore_button st) = False"
  "button_text (restore_button st) = ''Analyze Player/Team''"
  "spinner_hidden (restore_button st) = True"
  "recommendations_hidden (restore_button st) = recommendations_hidden st"
  "results_display (restore_button st) = results_display st"
  "error_message (restore_button st) = error_message st"
  "player_list (restore_button st) = player_list st"
  "player_list_header (restore_button st) = player_list_header st"
  "detail (restore_button st) = detail st"
  "effects (restore_button st) = effects st"
  by (simp_all add: restore_button_def)

lemma emit_fields [simp]:
  "player_input (emit e st) = player_input st"
  "week_input (emit e st) = week_input st"
  "year_input (emit e st) = year_input st"
  "submit_disabled (emit e st) = submit_disabled st"
  "button_text (emit e st) = button_text st"
  "spinner_hidden (emit e st) = spinner_hidden st"
  "recommendations_hidden (emit e st) = recommendations_hidden st"
  "results_display (emit e st) = results_display st"
  "error_message (emit e st) = error_message st"
  "player_list (emit e st) = player_list st"
  "player_list_header (emit e st) = player_list_header st"
  "detail (emit e st) = detail st"
  "effects (emit e st) = effects st @ [e]"
  by (simp_all add: emit_def)

lemma show_error_fields [simp]:
  "error_message (show_error m st) = m"
  "recommendations_hidden (show_error m st) = False"
  "results_display (show_error m st) = results_display st"
  "player_list (show_error m st) = player_list st"
  "player_list_header (show_error m st) = player_list_header st"
  "detail (show_error m st) = detail st"
  "effects (show_error m st) = effects st"
  by (simp_all add: show_error_def)

lemma and_then_simps [simp]:
  "and_then (Inl e) k = Inl e"
  "and_then (Inr x) k = k x"
  by (simp_all add: and_then_def)

lemma and_then_eq_Inr:
  "and_then m k = Inr y \<longleftrightarrow> (\<exists>x. m = Inr x \<and> k x = Inr y)"
  by (cases m) simp_all

lemma stmt_simps [simp]:
  "step f st = (None, f st)"
  "with_value (Inl e) k st = (Some e, st)"
  "with_value (Inr x) k st = k x st"
  "assign (Inl e) g st = (Some e, st)"
  "assign (Inr x) g st = (None, g x st)"
  by (simp_all add: step_def with_value_def assign_def)

lemma seq_unfold:
  "seq a b st = (case a st of (Some e, st') \<Rightarrow> (Some e, st') | (None, st') \<Rightarrow> b st')"
  by (simp add: seq_def)

lemma seq_normal [simp]: "a st = (None, st') \<Longrightarrow> seq a b st = b st'"
  by (simp add: seq_def)

lemma seq_thrown [simp]: "a st = (Some e, st') \<Longrightarrow> seq a b st = (Some e, st')"
  by (simp add: seq_def)

lemma write_detail_fields [simp]:
  "detail (write_detail f st) = f (detail st)"
  "player_list (write_detail f st) = player_list st"
  "player_list_header (write_detail f st) = player_list_header st"
  "results_display (write_detail f st) = results_display st"
  "recommendations_hidden (write_detail f st) = recommendations_hidden st"
  "error_message (write_detail f st) = error_message st"
  "effects (write_detail f st) = effects st"
  by (simp_all add: write_detail_def)

lemma on_submit_unfilled:
  "\<not> fields_filled st \<Longrightarrow>
   on_submit E outcome st =
     emit (Alert ''Please enter a player name/team, week, and year.'')
       (restore_button (loading st))"
  by (auto simp add: on_submit_def fields_filled_def Let_def)

lemma on_submit_filled:
  "fields_filled st \<Longrightarrow>
   on_submit E outcome st =
     (case try_block E outcome (loading st) of
        (None, st') \<Rightarrow> restore_button st'
      | (Some msg, st') \<Rightarrow> restore_button (show_error msg (emit (ConsoleError msg) st')))"
  by (simp add: on_submit_def fields_filled_def Let_def)

lemma sample_page_filled: "fields_filled sample_page"
  by (simp add: fields_filled_def sample_page_def filled_page_def ustr_def trim_def
      is_white_space_def)

lemma blank_page_unfilled: "trim (player_input blank_page) = []"
  by (simp add: blank_page_def filled_page_def ustr_def trim_def is_white_space_def)

section \<open>Validation of the form\<close>

text \<open>
  Claim C4. When one of the three trimmed fields is empty, the handler sends no request:
  all it adds to the effects is the \<^verbatim>\<open>preventDefault\<close> and one alert, whatever the
  network would have answered. It leaves the submit button enabled, its label back to
  \<^verbatim>\<open>Analyze Player/Team\<close> and the spinner hidden.
\<close>

theorem validation_blocks_request:
  assumes "trim (player_input st) = [] \<or> trim (week_input st) = [] \<or> trim (year_input st) = []"
  shows "effects (on_submit E outcome st) =
           effects st @
           [PreventDefault, Alert ''Please enter a player name/team, week, and year.'']
       \<and> submit_disabled (on_submit E outcome st) = False
       \<and> button_text (on_submit E outcome st) = ''Analyze Player/Team''
       \<and> spinner_hidden (on_submit E outcome st) = True"
proof -
  from assms have "\<not> fields_filled st"
    by (auto simp add: fields_filled_def)
  then show ?thesis
    by (simp add: on_submit_unfilled)
qed

theorem validation_blocks_request_witness:
  "trim (player_input blank_page) = []
   \<and> effects (on_submit v8 (success (JArr [])) blank_page) =
       [PreventDefault, Alert ''Please enter a player name/team, week, and year.'']
   \<and> submit_disabled (on_submit v8 (success (JArr [])) blank_page) = False
   \<and> button_text (on_submit v8 (success (JArr [])) blank_page) = ''Analyze Player/Team''
   \<and> spinner_hidden (on_submit v8 (success (JArr [])) blank_page) = True"
proof -
  have e: "effects blank_page = []"
    by (simp add: blank_page_def filled_page_def)
  show ?thesis
    using validation_blocks_request [of blank_page v8 "success (JArr [])"] blank_page_unfilled e
    by simp
qed

section \<open>The button after a submission\<close>

text \<open>
  Claim C6. Whatever the network answers (a rejected request, an HTTP error, a body that
  does not parse, a body of the wrong shape, a renderer that throws) and also when the
  form is incomplete, the handler ends with the submit button enabled, its label
  \<^verbatim>\<open>Analyze Player/Team\<close> and the spinner hidden. The outcome type holds every
  completed request; the handler is a total function, so it always gets there.
\<close>

theorem button_always_restored:
  "submit_disabled (on_submit E outcome st) = False
   \<and> button_text (on_submit E outcome st) = ''Analyze Player/Team''
   \<and> spinner_hidden (on_submit E outcome st) = True"
  by (cases "fields_filled st")
     (simp_all add: on_submit_unfilled on_submit_filled split: prod.split option.split)

theorem button_always_restored_witness:
  "submit_disabled (on_submit v8 (failure ''NOT FOUND'' (Unparseable ''bad'')) sample_page) = False
   \<and> button_text (on_submit v8 (failure ''NOT FOUND'' (Unparseable ''bad'')) sample_page) =
       ''Analyze Player/Team''
   \<and> spinner_hidden (on_submit v8 (failure ''NOT FOUND'' (Unparseable ''bad'')) sample_page) = True"
  using button_always_restored [of v8 "failure ''NOT FOUND'' (Unparseable ''bad'')" sample_page]
  by simp

section \<open>The score thresholds\<close>

lemma texts_distinct:
  "MUST_START_text \<noteq> FLEX_text" "MUST_START_text \<noteq> SIT_text" "FLEX_text \<noteq> SIT_text"
  "FLEX_text \<noteq> MUST_START_text" "SIT_text \<noteq> MUST_START_text" "SIT_text \<noteq> FLEX_text"
  by (simp_all add: MUST_START_text_def FLEX_text_def SIT_text_def)

lemma js_ge_number: "js_ge E (Some (JNum n)) c = Inr (num_ge n c)"
  by (simp add: js_ge_def ToNumber_def)

lemma conclusion_for_number:
  "conclusion_for E (Some (JNum (Fin s))) =
     Inr (if 75 \<le> s then (MUST_START_text, ''text-green-400 bg-green-900/50'')
          else if 45 \<le> s then (FLEX_text, ''text-yellow-400 bg-yellow-900/50'')
          else (SIT_text, ''text-red-400 bg-red-900/50''))"
  by (simp add: conclusion_for_def js_ge_number)

lemma scoreColor_number:
  "scoreColor E (Some (JNum (Fin s))) =
     Inr (if 75 \<le> s then ''text-green-500'' else if 45 \<le> s then ''text-yellow-400''
          else ''text-red-500'')"
  by (simp add: scoreColor_def js_ge_number)

lemma scoreColor_any_number: "\<exists>col. scoreColor E (Some (JNum n)) = Inr col"
  by (simp add: scoreColor_def js_ge_number)

lemma scoreColor_falsy: "\<not> truthy v \<Longrightarrow> \<exists>col. scoreColor E v = Inr col"
proof (cases v)
  case None
  then show ?thesis by (simp add: scoreColor_def js_ge_def ToNumber_def)
next
  case (Some j)
  assume "\<not> truthy v"
  with Some show ?thesis
    by (cases j) (simp_all add: scoreColor_def js_ge_def ToNumber_def)
qed

lemma score_text_falsy: "\<not> truthy v \<Longrightarrow> score_text E v = Inr ''--''"
  by (simp add: score_text_def)

lemma score_text_number:
  "score_text E (Some (JNum n)) = Inr (if truthy (Some (JNum n)) then toFixed2 E n else ''--'')"
  by (simp add: score_text_def call_toFixed_def)

text \<open>A card that is built carries the colour of lines 13 to 18 and the score text of
  line 29.\<close>

lemma card_parts:
  assumes "createPlayerCardHTML E (JObj kvs) = Inr c"
  shows "scoreColor E (map_of kvs ''reco_score'') = Inr (card_scoreColor c)"
    and "score_text E (map_of kvs ''reco_score'') = Inr (card_score c)"
  using assms
  by (auto simp add: createPlayerCardHTML_def get_prop_def and_then_eq_Inr)

lemma printable_Inr: "printable E v \<Longrightarrow> \<exists>s. ToString E v = Inr s"
  by (cases "ToString E v") (simp_all add: printable_def)

lemma printable_js_or: "printable E v \<Longrightarrow> printable E (js_or v (Some (JStr s)))"
  by (simp add: js_or_def printable_def ToString_def)

text \<open>The card is built when the colour and the score text are, and the four printed
  properties convert to strings.\<close>

lemma card_exists:
  assumes "scoreColor E (map_of kvs ''reco_score'') = Inr col"
    and "score_text E (map_of kvs ''reco_score'') = Inr shown"
    and "printable E (map_of kvs ''player_name'')" "printable E (map_of kvs ''position'')"
    and "printable E (map_of kvs ''team'')" "printable E (map_of kvs ''reco_conclusion'')"
  shows "\<exists>c. createPlayerCardHTML E (JObj kvs) = Inr c"
proof -
  from printable_Inr [OF printable_js_or [OF assms(3)], of "''N/A''"]
  obtain name where n: "ToString E (js_or (map_of kvs ''player_name'') (Some (JStr ''N/A'')))
      = Inr name" by blast
  from printable_Inr [OF printable_js_or [OF assms(4)], of "''N/A''"]
  obtain pos where p: "ToString E (js_or (map_of kvs ''position'') (Some (JStr ''N/A'')))
      = Inr pos" by blast
  from printable_Inr [OF printable_js_or [OF assms(5)], of "''N/A''"]
  obtain team where t: "ToString E (js_or (map_of kvs ''team'') (Some (JStr ''N/A'')))
      = Inr team" by blast
  from printable_Inr [OF assms(6)]
  obtain concl where c: "ToString E (map_of kvs ''reco_conclusion'') = Inr concl" by blast
  show ?thesis
    by (simp add: createPlayerCardHTML_def get_prop_def field_def assms(1,2) n p t c)
qed

text \<open>The conclusion is written on lines 87 and 88, before anything after it can throw.\<close>

lemma detail_conclusion:
  assumes "map_of kvs ''reco_score'' = Some (JNum (Fin s))"
  shows "conclusion (detail (snd (renderSinglePlayerDetail E (JObj kvs) st))) =
     fst (if 75 \<le> s then (MUST_START_text, ''text-green-400 bg-green-900/50'')
          else if 45 \<le> s then (FLEX_text, ''text-yellow-400 bg-yellow-900/50'')
          else (SIT_text, ''text-red-400 bg-red-900/50''))"
    and "conclusion_className (detail (snd (renderSinglePlayerDetail E (JObj kvs) st))) =
     ''font-body text-xl font-bold p-2 rounded-md '' @
     snd (if 75 \<le> s then (MUST_START_text, ''text-green-400 bg-green-900/50'')
          else if 45 \<le> s then (FLEX_text, ''text-yellow-400 bg-yellow-900/50'')
          else (SIT_text, ''text-red-400 bg-red-900/50''))"
  using assms
  by (simp_all add: renderSinglePlayerDetail_def get_prop_def conclusion_for_number seq_unfold
      assign_def with_value_def split: sum.split)

text \<open>
  Claim C1. For a record whose \<^verbatim>\<open>reco_score\<close> is the number \<open>s\<close>, the colour computed on
  lines 13 to 18 is green exactly when \<open>75 \<le> s\<close>, yellow exactly when \<open>45 \<le> s < 75\<close> and
  red exactly when \<open>s < 45\<close>, and every card built from the record carries that colour; the
  card is built whenever the four properties printed on it convert to strings. The detail
  view shows the must-start text and its green class, the flex text and its yellow class,
  the sit text and its red class under the same three conditions. The bounds 75 and 45
  belong to the higher tier.
\<close>

theorem threshold_classification:
  assumes "map_of kvs ''reco_score'' = Some (JNum (Fin s))"
  shows "(\<exists>col. scoreColor E (Some (JNum (Fin s))) = Inr col
        \<and> (col = ''text-green-500'') = (75 \<le> s)
        \<and> (col = ''text-yellow-400'') = (45 \<le> s \<and> s < 75)
        \<and> (col = ''text-red-500'') = (s < 45))
     \<and> (\<forall>c. createPlayerCardHTML E (JObj kvs) = Inr c \<longrightarrow>
          (card_scoreColor c = ''text-green-500'') = (75 \<le> s)
        \<and> (card_scoreColor c = ''text-yellow-400'') = (45 \<le> s \<and> s < 75)
        \<and> (card_scoreColor c = ''text-red-500'') = (s < 45))
     \<and> (printable E (map_of kvs ''player_name'') \<and> printable E (map_of kvs ''position'')
        \<and> printable E (map_of kvs ''team'') \<and> printable E (map_of kvs ''reco_conclusion'')
        \<longrightarrow> (\<exists>c. createPlayerCardHTML E (JObj kvs) = Inr c))
     \<and> (conclusion (detail (snd (renderSinglePlayerDetail E (JObj kvs) st))) = MUST_START_text)
         = (75 \<le> s)
     \<and> (conclusion (detail (snd (renderSinglePlayerDetail E (JObj kvs) st))) = FLEX_text)
         = (45 \<le> s \<and> s < 75)
     \<and> (conclusion (detail (snd (renderSinglePlayerDetail E (JObj kvs) st))) = SIT_text)
         = (s < 45)
     \<and> (conclusion_className (detail (snd (renderSinglePlayerDetail E (JObj kvs) st))) =
          ''font-body text-xl font-bold p-2 rounded-md text-green-400 bg-green-900/50'')
         = (75 \<le> s)
     \<and> (conclusion_className (detail (snd (renderSinglePlayerDetail E (JObj kvs) st))) =
          ''font-body text-xl font-bold p-2 rounded-md text-yellow-400 bg-yellow-900/50'')
         = (45 \<le> s \<and> s < 75)
     \<and> (conclusion_className (detail (snd (renderSinglePlayerDetail E (JObj kvs) st))) =
          ''font-body text-xl font-bold p-2 rounded-md text-red-400 bg-red-900/50'')
         = (s < 45)"
proof (intro conjI allI impI)
  show "\<exists>col. scoreColor E (Some (JNum (Fin s))) = Inr col
        \<and> (col = ''text-green-500'') = (75 \<le> s)
        \<and> (col = ''text-yellow-400'') = (45 \<le> s \<and> s < 75)
        \<and> (col = ''text-red-500'') = (s < 45)"
    by (auto simp add: scoreColor_number)
next
  fix c
  assume "createPlayerCardHTML E (JObj kvs) = Inr c"
  from card_parts(1) [OF this] assms
  have col: "card_scoreColor c =
     (if 75 \<le> s then ''text-green-500'' else if 45 \<le> s then ''text-yellow-400''
      else ''text-red-500'')"
    by (simp add: scoreColor_number)
  show "(card_scoreColor c = ''text-green-500'') = (75 \<le> s)"
    "(card_scoreColor c = ''text-yellow-400'') = (45 \<le> s \<and> s < 75)"
    "(card_scoreColor c = ''text-red-500'') = (s < 45)"
    unfolding col by auto
next
  assume "printable E (map_of kvs ''player_name'') \<and> printable E (map_of kvs ''position'')
        \<and> printable E (map_of kvs ''team'') \<and> printable E (map_of kvs ''reco_conclusion'')"
  then show "\<exists>c. createPlayerCardHTML E (JObj kvs) = Inr c"
    using card_exists [of E kvs _ _] assms
    by (simp add: scoreColor_number score_text_number)
next
  note d = detail_conclusion [OF assms, of E st]
  show "(conclusion (detail (snd (renderSinglePlayerDetail E (JObj kvs) st))) = MUST_START_text)
         = (75 \<le> s)"
    "(conclusion (detail (snd (renderSinglePlayerDetail E (JObj kvs) st))) = FLEX_text)
         = (45 \<le> s \<and> s < 75)"
    "(conclusion (detail (snd (renderSinglePlayerDetail E (JObj kvs) st))) = SIT_text)
         = (s < 45)"
    unfolding d(1) by (auto simp add: texts_distinct)
  show "(conclusion_className (detail (snd (renderSinglePlayerDetail E (JObj kvs) st))) =
          ''font-body text-xl font-bold p-2 rounded-md text-green-400 bg-green-900/50'')
         = (75 \<le> s)"
    "(conclusion_className (detail (snd (renderSinglePlayerDetail E (JObj kvs) st))) =
          ''font-body text-xl font-bold p-2 rounded-md text-yellow-400 bg-yellow-900/50'')
         = (45 \<le> s \<and> s < 75)"
    "(conclusion_className (detail (snd (renderSinglePlayerDetail E (JObj kvs) st))) =
          ''font-body text-xl font-bold p-2 rounded-md text-red-400 bg-red-900/50'')
         = (s < 45)"
    unfolding d(2) by auto
qed

lemma player_fields:
  "map_of [(''player_name'', JStr n), (''team'', JStr ''KC''), (''position'', JStr ''WR''),
           (''reco_score'', JNum (Fin x)), (''reco_conclusion'', JStr ''ok''),
           (''input_week'', JNum (Fin 3)), (''input_year'', JNum (Fin 2024)),
           (''volume'', JNum (Fin 7)), (''yards'', JNum (Fin 88)),
           (''receptions'', JNum (Fin 5)), (''td'', JNum (Fin 1))] ''reco_score''
        = Some (JNum (Fin x))"
  by simp

lemma printable_string [simp]: "printable E (Some (JStr s))"
  by (simp add: printable_def ToString_def)

theorem threshold_classification_witness:
  "(\<exists>c. createPlayerCardHTML v8 (player ''A'' 75) = Inr c
      \<and> card_scoreColor c = ''text-green-500'')
   \<and> conclusion (detail (snd (renderSinglePlayerDetail v8 (player ''A'' 75) sample_page))) =
       MUST_START_text
   \<and> (\<exists>c. createPlayerCardHTML v8 (player ''B'' 45) = Inr c
      \<and> card_scoreColor c = ''text-yellow-400'')
   \<and> conclusion (detail (snd (renderSinglePlayerDetail v8 (player ''B'' 45) sample_page))) =
       FLEX_text
   \<and> (\<exists>c. createPlayerCardHTML v8 (player ''C'' (449 / 10)) = Inr c
      \<and> card_scoreColor c = ''text-red-500'')
   \<and> conclusion (detail (snd (renderSinglePlayerDetail v8 (player ''C'' (449 / 10)) sample_page))) =
       SIT_text"
  using threshold_classification [OF player_fields [of "''A''" 75], of v8 sample_page]
        threshold_classification [OF player_fields [of "''B''" 45], of v8 sample_page]
        threshold_classification [OF player_fields [of "''C''" "449 / 10"], of v8 sample_page]
  unfolding player_def by auto

text \<open>Numbers that are not finite: a score of \<^verbatim>\<open>Infinity\<close> (a literal such as
  \<^verbatim>\<open>1e999\<close> parses to it) is in the top tier, \<^verbatim>\<open>-Infinity\<close> in the bottom
  one; \<^verbatim>\<open>NaN\<close>, which no JSON text parses to, would fall into the bottom tier.\<close>

lemma thresholds_not_finite:
  "conclusion_for E (Some (JNum PInf)) =
     Inr (MUST_START_text, ''text-green-400 bg-green-900/50'')"
  "scoreColor E (Some (JNum PInf)) = Inr ''text-green-500''"
  "conclusion_for E (Some (JNum NInf)) = Inr (SIT_text, ''text-red-400 bg-red-900/50'')"
  "scoreColor E (Some (JNum NInf)) = Inr ''text-red-500''"
  "conclusion_for E (Some (JNum NaN)) = Inr (SIT_text, ''text-red-400 bg-red-900/50'')"
  "scoreColor E (Some (JNum NaN)) = Inr ''text-red-500''"
  by (simp_all add: conclusion_for_def scoreColor_def js_ge_number)

text \<open>A property that does not convert to a string: the template literal throws and no
  card is built, whatever the score.\<close>

lemma odd_name_has_no_card:
  "createPlayerCardHTML v8 odd_name = Inl ''Cannot convert object to primitive value''"
  by (simp add: createPlayerCardHTML_def odd_name_def get_prop_def field_def js_or_def
      ToString_def scoreColor_number v8_def v8_message_def)

section \<open>The score shown on a card\<close>

text \<open>
  Claim C9. For a record whose \<^verbatim>\<open>reco_score\<close> is falsy (zero, \<^verbatim>\<open>null\<close>, absent,
  \<^verbatim>\<open>false\<close>, the empty string) the score text of line 29 is \<^verbatim>\<open>--\<close>, and every card
  built from the record shows it; the card of a record whose score is a number shows the
  two-decimal form exactly when the number is truthy. In both cases the card is built
  whenever the four properties printed on it convert to strings. For the score 0 the
  two-decimal form would have been \<^verbatim>\<open>0.00\<close>.
\<close>

theorem falsy_score_shows_dashes:
  "(\<not> truthy (map_of kvs ''reco_score'') \<longrightarrow>
      score_text E (map_of kvs ''reco_score'') = Inr ''--''
    \<and> (\<forall>c. createPlayerCardHTML E (JObj kvs) = Inr c \<longrightarrow> card_score c = ''--''))
   \<and> (map_of kvs ''reco_score'' = Some (JNum n) \<longrightarrow>
      (\<forall>c. createPlayerCardHTML E (JObj kvs) = Inr c \<longrightarrow>
         card_score c = (if truthy (Some (JNum n)) then toFixed2 E n else ''--'')))
   \<and> ((\<not> truthy (map_of kvs ''reco_score'') \<or> map_of kvs ''reco_score'' = Some (JNum n))
      \<and> printable E (map_of kvs ''player_name'') \<and> printable E (map_of kvs ''position'')
      \<and> printable E (map_of kvs ''team'') \<and> printable E (map_of kvs ''reco_conclusion'')
      \<longrightarrow> (\<exists>c. createPlayerCardHTML E (JObj kvs) = Inr c))
   \<and> \<not> truthy (Some (JNum (Fin 0))) \<and> \<not> truthy (Some JNull) \<and> \<not> truthy None
   \<and> toFixed2 E (Fin 0) = ''0.00''"
proof (intro conjI allI impI)
  assume f: "\<not> truthy (map_of kvs ''reco_score'')"
  show "score_text E (map_of kvs ''reco_score'') = Inr ''--''"
    using f by (rule score_text_falsy)
  fix c
  assume "createPlayerCardHTML E (JObj kvs) = Inr c"
  from card_parts(2) [OF this] score_text_falsy [OF f, of E]
  show "card_score c = ''--''" by simp
next
  fix c
  assume "map_of kvs ''reco_score'' = Some (JNum n)"
    and "createPlayerCardHTML E (JObj kvs) = Inr c"
  from card_parts(2) [OF this(2)] this(1)
  show "card_score c = (if truthy (Some (JNum n)) then toFixed2 E n else ''--'')"
    by (simp add: score_text_number)
next
  assume h: "(\<not> truthy (map_of kvs ''reco_score'') \<or> map_of kvs ''reco_score'' = Some (JNum n))
      \<and> printable E (map_of kvs ''player_name'') \<and> printable E (map_of kvs ''position'')
      \<and> printable E (map_of kvs ''team'') \<and> printable E (map_of kvs ''reco_conclusion'')"
  have "\<exists>col. scoreColor E (map_of kvs ''reco_score'') = Inr col"
    using h scoreColor_falsy [of "map_of kvs ''reco_score''" E] scoreColor_any_number [of E n]
    by auto
  moreover have "\<exists>shown. score_text E (map_of kvs ''reco_score'') = Inr shown"
    using h score_text_falsy [of "map_of kvs ''reco_score''" E] score_text_number [of E n]
    by auto
  ultimately show "\<exists>c. createPlayerCardHTML E (JObj kvs) = Inr c"
    using h card_exists [of E kvs] by blast
next
  show "toFixed2 E (Fin 0) = ''0.00''"
    by (simp add: toFixed2_def digits.simps digit_char_def)
qed simp_all

theorem falsy_score_shows_dashes_witness:
  "(\<exists>c. createPlayerCardHTML v8 (player ''A'' 0) = Inr c \<and> card_score c = ''--'')
   \<and> (\<exists>c. createPlayerCardHTML v8 (JObj [(''reco_score'', JNull)]) = Inr c
        \<and> card_score c = ''--'')
   \<and> (\<exists>c. createPlayerCardHTML v8 (JObj []) = Inr c \<and> card_score c = ''--'')
   \<and> (\<exists>c. createPlayerCardHTML v8 (player ''B'' (8765 / 100)) = Inr c
        \<and> card_score c = ''87.65'')"
proof -
  have f: "toFixed2 v8 (Fin (8765 / 100)) = ''87.65''"
    by (simp add: toFixed2_def digits.simps digit_char_def Let_def)
  have u: "printable v8 None"
    by (simp add: printable_def ToString_def)
  show ?thesis
    using falsy_score_shows_dashes [of "[(''reco_score'', JNull)]" v8 NaN]
          falsy_score_shows_dashes [of "[]" v8 NaN]
          falsy_score_shows_dashes [of "[(''player_name'', JStr ''A''), (''team'', JStr ''KC''),
             (''position'', JStr ''WR''), (''reco_score'', JNum (Fin 0)),
             (''reco_conclusion'', JStr ''ok''), (''input_week'', JNum (Fin 3)),
             (''input_year'', JNum (Fin 2024)), (''volume'', JNum (Fin 7)),
             (''yards'', JNum (Fin 88)), (''receptions'', JNum (Fin 5)),
             (''td'', JNum (Fin 1))]" v8 "Fin 0"]
          falsy_score_shows_dashes [of "[(''player_name'', JStr ''B''), (''team'', JStr ''KC''),
             (''position'', JStr ''WR''), (''reco_score'', JNum (Fin (8765 / 100))),
             (''reco_conclusion'', JStr ''ok''), (''input_week'', JNum (Fin 3)),
             (''input_year'', JNum (Fin 2024)), (''volume'', JNum (Fin 7)),
             (''yards'', JNum (Fin 88)), (''receptions'', JNum (Fin 5)),
             (''td'', JNum (Fin 1))]" v8 "Fin (8765 / 100)"]
          f u
    unfolding player_def by auto
qed

section \<open>The steps of the handler\<close>

lemma on_submit_thrown:
  assumes "fields_filled st" "try_block E outcome (loading st) = (Some msg, st')"
  shows "error_message (on_submit E outcome st) = msg"
    "recommendations_hidden (on_submit E outcome st) = False"
    "results_display (on_submit E outcome st) = results_display st'"
    "player_list (on_submit E outcome st) = player_list st'"
    "player_list_header (on_submit E outcome st) = player_list_header st'"
    "detail (on_submit E outcome st) = detail st'"
    "effects (on_submit E outcome st) = effects st' @ [ConsoleError msg]"
  using assms by (simp_all add: on_submit_filled)

lemma on_submit_normal:
  assumes "fields_filled st" "try_block E outcome (loading st) = (None, st')"
  shows "error_message (on_submit E outcome st) = error_message st'"
    "recommendations_hidden (on_submit E outcome st) = recommendations_hidden st'"
    "results_display (on_submit E outcome st) = results_display st'"
    "player_list (on_submit E outcome st) = player_list st'"
    "player_list_header (on_submit E outcome st) = player_list_header st'"
    "detail (on_submit E outcome st) = detail st'"
    "effects (on_submit E outcome st) = effects st'"
  using assms by (simp_all add: on_submit_filled)

lemma try_block_rejected:
  "try_block E (Rejected msg) st =
     (Some msg, emit (Fetch (trim (player_input st)) (trim (year_input st))
                        (trim (week_input st))) st)"
  by (simp add: try_block_def)

lemma try_block_http_unparseable:
  "\<not> ok r \<Longrightarrow> json_body r = Unparseable p \<Longrightarrow>
   try_block E (Resolved r) st =
     (Some (statusText r), emit (Fetch (trim (player_input st)) (trim (year_input st))
                                  (trim (week_input st))) st)"
  by (cases "statusText r = []")
     (simp_all add: try_block_def get_prop_def js_or_def ToString_def)

lemma try_block_http_null:
  "\<not> ok r \<Longrightarrow> json_body r = Parsed JNull \<Longrightarrow>
   try_block E (Resolved r) st =
     (Some (type_error_message E (ReadNullish (Some JNull) ''error'')),
      emit (Fetch (trim (player_input st)) (trim (year_input st)) (trim (week_input st))) st)"
  by (simp add: try_block_def get_prop_def)

lemma get_prop_field:
  "j \<noteq> JNull \<Longrightarrow> get_prop E (Some j) k = Inr (field j k)"
  by (cases j) (simp_all add: get_prop_def field_def)

lemma try_block_http_parsed:
  "\<not> ok r \<Longrightarrow> json_body r = Parsed j \<Longrightarrow> j \<noteq> JNull \<Longrightarrow>
   try_block E (Resolved r) st =
     (Some (either_text (ToString E (js_or (field j ''error'') (Some (JStr (statusText r)))))),
      emit (Fetch (trim (player_input st)) (trim (year_input st)) (trim (week_input st))) st)"
  by (simp add: try_block_def get_prop_field either_text_def split: sum.split)

lemma try_block_ok_unparseable:
  "ok r \<Longrightarrow> json_body r = Unparseable p \<Longrightarrow>
   try_block E (Resolved r) st =
     (Some p, emit (Fetch (trim (player_input st)) (trim (year_input st))
                      (trim (week_input st))) st)"
  by (simp add: try_block_def)

lemma try_block_ok_null:
  "ok r \<Longrightarrow> json_body r = Parsed JNull \<Longrightarrow>
   fst (try_block E (Resolved r) st) =
     Some (type_error_message E (ReadNullish (Some JNull) ''length''))"
  by (simp add: try_block_def)

lemma try_block_ok_parsed:
  "ok r \<Longrightarrow> json_body r = Parsed data \<Longrightarrow> data \<noteq> JNull \<Longrightarrow>
   try_block E (Resolved r) st =
     (case dispatch E data
        (emit (ConsoleLog ''Array Length:'')
          (emit (ConsoleLog ''Is Array:'')
            (emit (ConsoleLog ''Received data:'')
              (emit (ConsoleLog ''--- ANALYSIS RESULTS ---'')
                (emit (Fetch (trim (player_input st)) (trim (year_input st))
                         (trim (week_input st))) st))))) of
        (Some e, st3) \<Rightarrow> (Some e, st3)
      | (None, st3) \<Rightarrow> (None, emit ScrollTo st3))"
  by (simp add: try_block_def Let_def)

lemma dispatch_empty:
  "dispatch E (JArr []) st =
     (None, show_error
        ''No player or team data found for your search in the selected week/year.'' st)"
  by (simp add: dispatch_def as_array_def)

lemma dispatch_single:
  "dispatch E (JArr [x]) st =
     (if truthy (Some x) then renderSinglePlayerDetail E x st
      else (None, show_error ''Error: Single player data was null.'' st))"
  by (simp add: dispatch_def as_array_def)

lemma dispatch_many:
  "1 < length vs \<Longrightarrow> dispatch E (JArr vs) st = renderPlayerList E vs st"
  by (simp add: dispatch_def as_array_def)

lemma dispatch_other:
  "as_array data = None \<Longrightarrow>
   dispatch E data st =
     (None, show_error ''Unexpected error: Received data is not a recognized list format.'' st)"
  by (simp add: dispatch_def)

lemma conclusion_for_any_number: "\<exists>cc. conclusion_for E (Some (JNum n)) = Inr cc"
  by (simp add: conclusion_for_def js_ge_number)

text \<open>The detail view of an object with a numeric score, when every value it prints
  converts to a string.\<close>

lemma render_detail_number:
  assumes "map_of kvs ''reco_score'' = Some (JNum n)"
    and "conclusion_for E (Some (JNum n)) = Inr cc"
    and "ToString E (map_of kvs ''player_name'') = Inr nm"
    and "ToString E (map_of kvs ''team'') = Inr tm"
    and "ToString E (map_of kvs ''position'') = Inr ps"
    and "text_of E (map_of kvs ''input_year'') = Inr yr"
    and "text_of E (map_of kvs ''input_week'') = Inr wk"
    and "text_of E (map_of kvs ''volume'') = Inr vol"
    and "text_of E (map_of kvs ''yards'') = Inr yds"
    and "text_of E (map_of kvs ''receptions'') = Inr rcp"
    and "text_of E (map_of kvs ''td'') = Inr td"
  shows "fst (renderSinglePlayerDetail E (JObj kvs) st) = None"
    "results_display (snd (renderSinglePlayerDetail E (JObj kvs) st)) = ''block''"
    "recommendations_hidden (snd (renderSinglePlayerDetail E (JObj kvs) st)) = False"
    "player_list (snd (renderSinglePlayerDetail E (JObj kvs) st)) = []"
    "player_list_header (snd (renderSinglePlayerDetail E (JObj kvs) st)) =
       ''Detailed Player Analysis''"
    "error_message (snd (renderSinglePlayerDetail E (JObj kvs) st)) = error_message st"
    "effects (snd (renderSinglePlayerDetail E (JObj kvs) st)) = effects st"
    "detail (snd (renderSinglePlayerDetail E (JObj kvs) st)) =
       \<lparr>conclusion = fst cc,
        conclusion_className = ''font-body text-xl font-bold p-2 rounded-md '' @ snd cc,
        player_name_display = nm @ '' ('' @ tm @ '' - '' @ ps @ '')'',
        recommendation_score = toFixed2 E n @ '' /100'',
        input_year = yr, input_week = wk, stat_volume = vol, stat_yards = yds,
        stat_receptions = rcp, stat_td = td\<rparr>"
  using assms
  by (simp_all add: renderSinglePlayerDetail_def get_prop_def call_toFixed_def field_def)

text \<open>The same object with a name that does not convert: line 90 throws, and the box is
  never shown.\<close>

lemma odd_name_detail_hidden:
  "results_display (on_submit v8 (success (JArr [odd_name])) sample_page) = ''none''
   \<and> error_message (on_submit v8 (success (JArr [odd_name])) sample_page) =
       ''Cannot convert object to primitive value''"
proof -
  have nn: "JArr [odd_name] \<noteq> JNull" by simp
  have a: "ok \<lparr>ok = True, statusText = ''OK'', json_body = Parsed (JArr [odd_name])\<rparr>"
    and b: "json_body \<lparr>ok = True, statusText = ''OK'', json_body = Parsed (JArr [odd_name])\<rparr> =
              Parsed (JArr [odd_name])"
    by simp_all
  show ?thesis
    unfolding success_def on_submit_filled [OF sample_page_filled]
      try_block_ok_parsed [OF a b nn] dispatch_single
    by (simp add: odd_name_def renderSinglePlayerDetail_def get_prop_def
        conclusion_for_number field_def ToString_def v8_def v8_message_def)
qed

section \<open>A response with one element\<close>

text \<open>
  Claim C2, amended. After a successful response whose body is an array with exactly one
  element: when the element is an object with a numeric \<^verbatim>\<open>reco_score\<close> and the nine
  values the detail view prints (name, team, position, year, week and the four stats)
  convert to strings, the detail box is filled from that record and shown, the results
  section is revealed, the list is emptied and no error text is set; when the element is
  falsy (\<^verbatim>\<open>null\<close>, for one), the script shows
  \<^verbatim>\<open>Error: Single player data was null.\<close> instead, and the detail box stays hidden
  and untouched.
\<close>

theorem single_record_detail_view:
  assumes "fields_filled st" "ok r" "json_body r = Parsed (JArr [x])"
  shows
    "(\<forall>kvs n cc nm tm ps yr wk vol yds rcp td.
        x = JObj kvs \<and> map_of kvs ''reco_score'' = Some (JNum n)
      \<and> conclusion_for E (Some (JNum n)) = Inr cc
      \<and> ToString E (map_of kvs ''player_name'') = Inr nm
      \<and> ToString E (map_of kvs ''team'') = Inr tm
      \<and> ToString E (map_of kvs ''position'') = Inr ps
      \<and> text_of E (map_of kvs ''input_year'') = Inr yr
      \<and> text_of E (map_of kvs ''input_week'') = Inr wk
      \<and> text_of E (map_of kvs ''volume'') = Inr vol
      \<and> text_of E (map_of kvs ''yards'') = Inr yds
      \<and> text_of E (map_of kvs ''receptions'') = Inr rcp
      \<and> text_of E (map_of kvs ''td'') = Inr td \<longrightarrow>
        results_display (on_submit E (Resolved r) st) = ''block''
      \<and> recommendations_hidden (on_submit E (Resolved r) st) = False
      \<and> player_list (on_submit E (Resolved r) st) = []
      \<and> player_list_header (on_submit E (Resolved r) st) = ''Detailed Player Analysis''
      \<and> error_message (on_submit E (Resolved r) st) = []
      \<and> detail (on_submit E (Resolved r) st) =
          \<lparr>conclusion = fst cc,
           conclusion_className = ''font-body text-xl font-bold p-2 rounded-md '' @ snd cc,
           player_name_display = nm @ '' ('' @ tm @ '' - '' @ ps @ '')'',
           recommendation_score = toFixed2 E n @ '' /100'',
           input_year = yr, input_week = wk, stat_volume = vol, stat_yards = yds,
           stat_receptions = rcp, stat_td = td\<rparr>)
     \<and> (\<not> truthy (Some x) \<longrightarrow>
        error_message (on_submit E (Resolved r) st) = ''Error: Single player data was null.''
      \<and> recommendations_hidden (on_submit E (Resolved r) st) = False
      \<and> results_display (on_submit E (Resolved r) st) = ''none''
      \<and> player_list (on_submit E (Resolved r) st) = player_list st
      \<and> detail (on_submit E (Resolved r) st) = detail st)"
proof (intro conjI allI impI)
  fix kvs n cc nm tm ps yr wk vol yds rcp td
  assume h: "x = JObj kvs \<and> map_of kvs ''reco_score'' = Some (JNum n)
      \<and> conclusion_for E (Some (JNum n)) = Inr cc
      \<and> ToString E (map_of kvs ''player_name'') = Inr nm
      \<and> ToString E (map_of kvs ''team'') = Inr tm
      \<and> ToString E (map_of kvs ''position'') = Inr ps
      \<and> text_of E (map_of kvs ''input_year'') = Inr yr
      \<and> text_of E (map_of kvs ''input_week'') = Inr wk
      \<and> text_of E (map_of kvs ''volume'') = Inr vol
      \<and> text_of E (map_of kvs ''yards'') = Inr yds
      \<and> text_of E (map_of kvs ''receptions'') = Inr rcp
      \<and> text_of E (map_of kvs ''td'') = Inr td"
  then have x: "x = JObj kvs" by simp
  have nn: "JArr [x] \<noteq> JNull" and t: "truthy (Some x)"
    using x by simp_all
  define st1 where "st1 = emit (ConsoleLog ''Array Length:'')
          (emit (ConsoleLog ''Is Array:'')
            (emit (ConsoleLog ''Received data:'')
              (emit (ConsoleLog ''--- ANALYSIS RESULTS ---'')
                (emit (Fetch (trim (player_input (loading st))) (trim (year_input (loading st)))
                         (trim (week_input (loading st)))) (loading st)))))"
  from h have f: "fst (renderSinglePlayerDetail E (JObj kvs) st1) = None"
    "results_display (snd (renderSinglePlayerDetail E (JObj kvs) st1)) = ''block''"
    "recommendations_hidden (snd (renderSinglePlayerDetail E (JObj kvs) st1)) = False"
    "player_list (snd (renderSinglePlayerDetail E (JObj kvs) st1)) = []"
    "player_list_header (snd (renderSinglePlayerDetail E (JObj kvs) st1)) =
       ''Detailed Player Analysis''"
    "error_message (snd (renderSinglePlayerDetail E (JObj kvs) st1)) = error_message st1"
    "detail (snd (renderSinglePlayerDetail E (JObj kvs) st1)) =
       \<lparr>conclusion = fst cc,
        conclusion_className = ''font-body text-xl font-bold p-2 rounded-md '' @ snd cc,
        player_name_display = nm @ '' ('' @ tm @ '' - '' @ ps @ '')'',
        recommendation_score = toFixed2 E n @ '' /100'',
        input_year = yr, input_week = wk, stat_volume = vol, stat_yards = yds,
        stat_receptions = rcp, stat_td = td\<rparr>"
    using render_detail_number [of kvs n E cc nm tm ps yr wk vol yds rcp td st1]
    by simp_all
  obtain st2 where r2: "renderSinglePlayerDetail E (JObj kvs) st1 = (None, st2)"
    using f(1) by (cases "renderSinglePlayerDetail E (JObj kvs) st1") simp
  have tb: "try_block E (Resolved r) (loading st) = (None, emit ScrollTo st2)"
    using try_block_ok_parsed [OF assms(2,3) nn, of E "loading st"] x t r2
    by (simp add: dispatch_single st1_def)
  from r2 have st2: "snd (renderSinglePlayerDetail E (JObj kvs) st1) = st2"
    by simp
  show "results_display (on_submit E (Resolved r) st) = ''block''"
    using on_submit_normal(3) [OF assms(1) tb] f(2) st2 by simp
  show "recommendations_hidden (on_submit E (Resolved r) st) = False"
    using on_submit_normal(2) [OF assms(1) tb] f(3) st2 by simp
  show "player_list (on_submit E (Resolved r) st) = []"
    using on_submit_normal(4) [OF assms(1) tb] f(4) st2 by simp
  show "player_list_header (on_submit E (Resolved r) st) = ''Detailed Player Analysis''"
    using on_submit_normal(5) [OF assms(1) tb] f(5) st2 by simp
  show "error_message (on_submit E (Resolved r) st) = []"
    using on_submit_normal(1) [OF assms(1) tb] f(6) st2 by (simp add: st1_def)
  show "detail (on_submit E (Resolved r) st) =
          \<lparr>conclusion = fst cc,
           conclusion_className = ''font-body text-xl font-bold p-2 rounded-md '' @ snd cc,
           player_name_display = nm @ '' ('' @ tm @ '' - '' @ ps @ '')'',
           recommendation_score = toFixed2 E n @ '' /100'',
           input_year = yr, input_week = wk, stat_volume = vol, stat_yards = yds,
           stat_receptions = rcp, stat_td = td\<rparr>"
    using on_submit_normal(6) [OF assms(1) tb] f(7) st2 by simp
next
  assume t: "\<not> truthy (Some x)"
  have nn: "JArr [x] \<noteq> JNull" by simp
  define st1 where "st1 = emit (ConsoleLog ''Array Length:'')
          (emit (ConsoleLog ''Is Array:'')
            (emit (ConsoleLog ''Received data:'')
              (emit (ConsoleLog ''--- ANALYSIS RESULTS ---'')
                (emit (Fetch (trim (player_input (loading st))) (trim (year_input (loading st)))
                         (trim (week_input (loading st)))) (loading st)))))"
  have tb: "try_block E (Resolved r) (loading st) =
      (None, emit ScrollTo (show_error ''Error: Single player data was null.'' st1))"
    using try_block_ok_parsed [OF assms(2,3) nn, of E "loading st"] t
    by (simp add: dispatch_single st1_def)
  show "error_message (on_submit E (Resolved r) st) = ''Error: Single player data was null.''"
    using on_submit_normal(1) [OF assms(1) tb] by simp
  show "recommendations_hidden (on_submit E (Resolved r) st) = False"
    using on_submit_normal(2) [OF assms(1) tb] by simp
  show "results_display (on_submit E (Resolved r) st) = ''none''"
    using on_submit_normal(3) [OF assms(1) tb] by (simp add: st1_def)
  show "player_list (on_submit E (Resolved r) st) = player_list st"
    using on_submit_normal(4) [OF assms(1) tb] by (simp add: st1_def)
  show "detail (on_submit E (Resolved r) st) = detail st"
    using on_submit_normal(6) [OF assms(1) tb] by (simp add: st1_def)
qed

theorem single_record_detail_view_witness:
  "results_display (on_submit v8 (success (JArr [player ''A'' 80])) sample_page) = ''block''
   \<and> recommendations_hidden (on_submit v8 (success (JArr [player ''A'' 80])) sample_page) = False
   \<and> player_list (on_submit v8 (success (JArr [player ''A'' 80])) sample_page) = []
   \<and> conclusion (detail (on_submit v8 (success (JArr [player ''A'' 80])) sample_page)) =
       MUST_START_text
   \<and> player_name_display (detail (on_submit v8 (success (JArr [player ''A'' 80])) sample_page)) =
       ''A (KC - WR)''
   \<and> recommendation_score (detail (on_submit v8 (success (JArr [player ''A'' 80])) sample_page)) =
       ''80.00 /100''
   \<and> input_year (detail (on_submit v8 (success (JArr [player ''A'' 80])) sample_page)) = ''2024''
   \<and> error_message (on_submit v8 (success (JArr [JBool False])) sample_page) =
       ''Error: Single player data was null.''
   \<and> results_display (on_submit v8 (success (JArr [JBool False])) sample_page) = ''none''"
proof -
  have a: "ok \<lparr>ok = True, statusText = ''OK'', json_body = Parsed (JArr [x])\<rparr>"
    and b: "json_body \<lparr>ok = True, statusText = ''OK'', json_body = Parsed (JArr [x])\<rparr> =
              Parsed (JArr [x])" for x
    by simp_all
  have f: "toFixed2 v8 (Fin 80) = ''80.00''"
    by (simp add: toFixed2_def digits.simps digit_char_def Let_def)
  have y: "text_of v8 (Some (JNum (Fin 2024))) = Inr ''2024''"
    "text_of v8 (Some (JNum (Fin 3))) = Inr ''3''"
    "text_of v8 (Some (JNum (Fin 7))) = Inr ''7''"
    "text_of v8 (Some (JNum (Fin 88))) = Inr ''88''"
    "text_of v8 (Some (JNum (Fin 5))) = Inr ''5''"
    "text_of v8 (Some (JNum (Fin 1))) = Inr ''1''"
    by (simp_all add: text_of_def num_to_string_def digits.simps digit_char_def)
  note t1 = single_record_detail_view [OF sample_page_filled a b, of "player ''A'' 80" v8,
      THEN conjunct1, rule_format,
      of "[(''player_name'', JStr ''A''), (''team'', JStr ''KC''), (''position'', JStr ''WR''),
           (''reco_score'', JNum (Fin 80)), (''reco_conclusion'', JStr ''ok''),
           (''input_week'', JNum (Fin 3)), (''input_year'', JNum (Fin 2024)),
           (''volume'', JNum (Fin 7)), (''yards'', JNum (Fin 88)),
           (''receptions'', JNum (Fin 5)), (''td'', JNum (Fin 1))]"
         "Fin 80" "(MUST_START_text, ''text-green-400 bg-green-900/50'')"
         "''A''" "''KC''" "''WR''" "''2024''" "''3''" "''7''" "''88''" "''5''" "''1''"]
  note t2 = single_record_detail_view [OF sample_page_filled a b, of "JBool False" v8,
      THEN conjunct2]
  show ?thesis
    using t1 t2 f y
    by (simp add: success_def player_def conclusion_for_number ToString_def)
qed

text \<open>The claim as stated fails on the body \<^verbatim>\<open>[null]\<close>: the array has length one, the
  detail box stays hidden and empty, and the error text is set.\<close>

theorem single_null_element_counterexample:
  "results_display (on_submit v8 (success (JArr [JNull])) sample_page) = ''none''
   \<and> detail (on_submit v8 (success (JArr [JNull])) sample_page) = empty_detail
   \<and> error_message (on_submit v8 (success (JArr [JNull])) sample_page) =
       ''Error: Single player data was null.''"
proof -
  have nn: "JArr [JNull] \<noteq> JNull" by simp
  have a: "ok \<lparr>ok = True, statusText = ''OK'', json_body = Parsed (JArr [JNull])\<rparr>"
    and b: "json_body \<lparr>ok = True, statusText = ''OK'', json_body = Parsed (JArr [JNull])\<rparr> =
              Parsed (JArr [JNull])"
    by simp_all
  have d: "detail sample_page = empty_detail"
    by (simp add: sample_page_def filled_page_def)
  show ?thesis
    unfolding success_def
    using d
    by (simp add: on_submit_filled [OF sample_page_filled]
        try_block_ok_parsed [OF a b nn] dispatch_single)
qed

section \<open>The text shown for an HTTP error\<close>

text \<open>
  Claim C5, amended. After a response that is not ok: when the body parses to an object
  whose \<^verbatim>\<open>error\<close> property is a non-empty string, the error text is that string; more
  generally, when the property is truthy and converts to a string, the error text is that
  string; when the body does not parse, the error text is the status text.
\<close>

theorem http_error_text:
  assumes "fields_filled st" "\<not> ok r"
  shows
    "(\<forall>kvs m. json_body r = Parsed (JObj kvs) \<and> map_of kvs ''error'' = Some (JStr m) \<and> m \<noteq> []
        \<longrightarrow> error_message (on_submit E (Resolved r) st) = m)
     \<and> (\<forall>kvs v s. json_body r = Parsed (JObj kvs) \<and> map_of kvs ''error'' = Some v
                \<and> truthy (Some v) \<and> json_to_string E v = Inr s
        \<longrightarrow> error_message (on_submit E (Resolved r) st) = s)
     \<and> (\<forall>p. json_body r = Unparseable p
        \<longrightarrow> error_message (on_submit E (Resolved r) st) = statusText r)"
proof (intro conjI allI impI)
  fix kvs v s
  assume h: "json_body r = Parsed (JObj kvs) \<and> map_of kvs ''error'' = Some v \<and> truthy (Some v)
      \<and> json_to_string E v = Inr s"
  then have "try_block E (Resolved r) (loading st) =
      (Some s,
       emit (Fetch (trim (player_input (loading st))) (trim (year_input (loading st)))
               (trim (week_input (loading st)))) (loading st))"
    using try_block_http_parsed [OF assms(2), of "JObj kvs" E "loading st"]
    by (simp add: field_def js_or_def ToString_def either_text_def)
  from on_submit_thrown(1) [OF assms(1) this]
  show "error_message (on_submit E (Resolved r) st) = s" .
next
  fix kvs m
  assume h: "json_body r = Parsed (JObj kvs) \<and> map_of kvs ''error'' = Some (JStr m) \<and> m \<noteq> []"
  then have "try_block E (Resolved r) (loading st) =
      (Some m,
       emit (Fetch (trim (player_input (loading st))) (trim (year_input (loading st)))
               (trim (week_input (loading st)))) (loading st))"
    using try_block_http_parsed [OF assms(2), of "JObj kvs" E "loading st"]
    by (simp add: field_def js_or_def ToString_def either_text_def)
  from on_submit_thrown(1) [OF assms(1) this]
  show "error_message (on_submit E (Resolved r) st) = m" .
next
  fix p
  assume "json_body r = Unparseable p"
  from on_submit_thrown(1) [OF assms(1) try_block_http_unparseable [OF assms(2) this]]
  show "error_message (on_submit E (Resolved r) st) = statusText r" .
qed

theorem http_error_text_witness:
  "error_message
     (on_submit v8 (failure ''NOT FOUND'' (Parsed (JObj [(''error'', JStr ''not found'')])))
        sample_page) = ''not found''
   \<and> error_message
       (on_submit v8 (failure ''INTERNAL SERVER ERROR'' (Unparseable ''Unexpected token <''))
          sample_page) = ''INTERNAL SERVER ERROR''"
proof -
  have a: "\<not> ok \<lparr>ok = False, statusText = s, json_body = b\<rparr>" for s b
    by simp
  show ?thesis
    using http_error_text [OF sample_page_filled a,
            of "''NOT FOUND''" "Parsed (JObj [(''error'', JStr ''not found'')])" v8]
          http_error_text [OF sample_page_filled a,
            of "''INTERNAL SERVER ERROR''" "Unparseable ''Unexpected token <''" v8]
    by (simp add: failure_def)
qed

text \<open>The claim as stated fails on the body \<^verbatim>\<open>{"error": ""}\<close>: the body contains the
  field, its value is the empty string, and the text shown is the status text.\<close>

theorem empty_error_field_counterexample:
  "map_of [(''error'', JStr [])] ''error'' = Some (JStr [])
   \<and> error_message
       (on_submit v8 (failure ''NOT FOUND'' (Parsed (JObj [(''error'', JStr [])]))) sample_page)
     = ''NOT FOUND''
   \<and> error_message
       (on_submit v8 (failure ''NOT FOUND'' (Parsed (JObj [(''error'', JStr [])]))) sample_page)
     \<noteq> []"
proof -
  have a: "\<not> ok \<lparr>ok = False, statusText = ''NOT FOUND'',
                  json_body = Parsed (JObj [(''error'', JStr [])])\<rparr>"
    and b: "json_body \<lparr>ok = False, statusText = ''NOT FOUND'',
                  json_body = Parsed (JObj [(''error'', JStr [])])\<rparr> =
            Parsed (JObj [(''error'', JStr [])])"
    and nn: "JObj [(''error'', JStr [])] \<noteq> JNull"
    by simp_all
  show ?thesis
    unfolding failure_def
    by (simp add: on_submit_filled [OF sample_page_filled]
        try_block_http_parsed [OF a b nn] field_def js_or_def ToString_def either_text_def)
qed

text \<open>An \<^verbatim>\<open>error\<close> property that does not convert to a string: the text shown is
  the message of the \<^verbatim>\<open>TypeError\<close>.\<close>

lemma odd_error_field:
  "error_message
     (on_submit v8 (failure ''NOT FOUND''
        (Parsed (JObj [(''error'', JObj [(''toString'', JNull)])]))) sample_page)
   = ''Cannot convert object to primitive value''"
proof -
  have a: "\<not> ok \<lparr>ok = False, statusText = ''NOT FOUND'',
                  json_body = Parsed (JObj [(''error'', JObj [(''toString'', JNull)])])\<rparr>"
    and b: "json_body \<lparr>ok = False, statusText = ''NOT FOUND'',
                  json_body = Parsed (JObj [(''error'', JObj [(''toString'', JNull)])])\<rparr> =
            Parsed (JObj [(''error'', JObj [(''toString'', JNull)])])"
    and nn: "JObj [(''error'', JObj [(''toString'', JNull)])] \<noteq> JNull"
    by simp_all
  show ?thesis
    unfolding failure_def
    by (simp add: on_submit_filled [OF sample_page_filled]
        try_block_http_parsed [OF a b nn] field_def js_or_def ToString_def either_text_def
        v8_def v8_message_def)
qed

section \<open>Where an error is shown\<close>

lemma message_visible_iff:
  "recommendations_hidden st = False \<Longrightarrow> message_visible st = (error_message st \<noteq> [])"
  by (simp add: message_visible_def)

text \<open>
  Claim C7, amended. Every error path behind the validation (a rejected request, an HTTP
  error, a body that does not parse, an empty result, a body that is not an array, an
  array whose single element is falsy, and whatever else throws inside the
  \<^verbatim>\<open>try\<close> block) sets the text of the error region to the message of that path and
  reveals the results section, so the message is visible whenever it is not the empty
  string. The fixed texts of the empty result, of the falsy element and of the body that is
  not an array are never empty; after an HTTP error with a body that does not parse the
  message is the status text, and it is visible exactly when the status text is not empty.
  The validation failure does neither: it raises an alert, and leaves the error region
  empty and the results section hidden.
\<close>

theorem error_paths_show_message:
  "(\<not> fields_filled st \<longrightarrow>
      error_message (on_submit E outcome st) = []
    \<and> recommendations_hidden (on_submit E outcome st) = True
    \<and> message_visible (on_submit E outcome st) = False
    \<and> effects (on_submit E outcome st) =
        effects st @
        [PreventDefault, Alert ''Please enter a player name/team, week, and year.''])
   \<and> (fields_filled st \<longrightarrow>
      (\<forall>msg. outcome = Rejected msg \<longrightarrow>
         error_message (on_submit E outcome st) = msg
       \<and> recommendations_hidden (on_submit E outcome st) = False
       \<and> message_visible (on_submit E outcome st) = (msg \<noteq> []))
    \<and> (\<forall>r. outcome = Resolved r \<and> \<not> ok r \<longrightarrow>
         error_message (on_submit E outcome st) =
           (case json_body r of
              Unparseable p \<Rightarrow> statusText r
            | Parsed j \<Rightarrow>
                if j = JNull then type_error_message E (ReadNullish (Some JNull) ''error'')
                else either_text
                       (ToString E (js_or (field j ''error'') (Some (JStr (statusText r))))))
       \<and> recommendations_hidden (on_submit E outcome st) = False)
    \<and> (\<forall>r p. outcome = Resolved r \<and> \<not> ok r \<and> json_body r = Unparseable p \<longrightarrow>
         message_visible (on_submit E outcome st) = (statusText r \<noteq> []))
    \<and> (\<forall>r p. outcome = Resolved r \<and> ok r \<and> json_body r = Unparseable p \<longrightarrow>
         error_message (on_submit E outcome st) = p
       \<and> recommendations_hidden (on_submit E outcome st) = False
       \<and> message_visible (on_submit E outcome st) = (p \<noteq> []))
    \<and> (\<forall>r. outcome = Resolved r \<and> ok r \<and> json_body r = Parsed (JArr []) \<longrightarrow>
         error_message (on_submit E outcome st) =
           ''No player or team data found for your search in the selected week/year.''
       \<and> recommendations_hidden (on_submit E outcome st) = False
       \<and> message_visible (on_submit E outcome st))
    \<and> (\<forall>r data. outcome = Resolved r \<and> ok r \<and> json_body r = Parsed data
                  \<and> as_array data = None \<longrightarrow>
         error_message (on_submit E outcome st) =
           (if data = JNull then type_error_message E (ReadNullish (Some JNull) ''length'')
            else ''Unexpected error: Received data is not a recognized list format.'')
       \<and> recommendations_hidden (on_submit E outcome st) = False
       \<and> (data \<noteq> JNull \<longrightarrow> message_visible (on_submit E outcome st)))
    \<and> (\<forall>r x. outcome = Resolved r \<and> ok r \<and> json_body r = Parsed (JArr [x])
               \<and> \<not> truthy (Some x) \<longrightarrow>
         error_message (on_submit E outcome st) = ''Error: Single player data was null.''
       \<and> recommendations_hidden (on_submit E outcome st) = False
       \<and> message_visible (on_submit E outcome st))
    \<and> (\<forall>msg st'. try_block E outcome (loading st) = (Some msg, st') \<longrightarrow>
         error_message (on_submit E outcome st) = msg
       \<and> recommendations_hidden (on_submit E outcome st) = False
       \<and> message_visible (on_submit E outcome st) = (msg \<noteq> [])))"
proof -
  have v: "\<not> fields_filled st \<Longrightarrow>
      error_message (on_submit E outcome st) = []
    \<and> recommendations_hidden (on_submit E outcome st) = True
    \<and> message_visible (on_submit E outcome st) = False
    \<and> effects (on_submit E outcome st) =
        effects st @
        [PreventDefault, Alert ''Please enter a player name/team, week, and year.'']"
    by (simp add: on_submit_unfilled message_visible_def)
  have caught: "error_message (on_submit E outcome st) = msg
       \<and> recommendations_hidden (on_submit E outcome st) = False
       \<and> message_visible (on_submit E outcome st) = (msg \<noteq> [])"
    if "fields_filled st" "try_block E outcome (loading st) = (Some msg, st')" for msg st'
    using on_submit_thrown(1,2) [OF that] by (simp add: message_visible_def)
  have shown: "error_message (on_submit E outcome st) = msg
       \<and> recommendations_hidden (on_submit E outcome st) = False
       \<and> message_visible (on_submit E outcome st) = (msg \<noteq> [])"
    if "fields_filled st"
      "try_block E outcome (loading st) = (None, emit ScrollTo (show_error msg st'))"
    for msg st'
    using on_submit_normal(1,2) [OF that] by (simp add: message_visible_def)
  have a: "error_message (on_submit E outcome st) = msg
       \<and> recommendations_hidden (on_submit E outcome st) = False
       \<and> message_visible (on_submit E outcome st) = (msg \<noteq> [])"
    if "fields_filled st" "outcome = Rejected msg" for msg
    using caught [OF that(1), of msg] try_block_rejected [of E msg "loading st"] that(2)
    by simp
  have b: "error_message (on_submit E outcome st) =
           (case json_body r of
              Unparseable p \<Rightarrow> statusText r
            | Parsed j \<Rightarrow>
                if j = JNull then type_error_message E (ReadNullish (Some JNull) ''error'')
                else either_text
                       (ToString E (js_or (field j ''error'') (Some (JStr (statusText r))))))
       \<and> recommendations_hidden (on_submit E outcome st) = False"
    if f: "fields_filled st" and o: "outcome = Resolved r \<and> \<not> ok r" for r
  proof (cases "json_body r")
    case (Unparseable p)
    from o have nok: "\<not> ok r" by simp
    from caught [OF f, of "statusText r"] try_block_http_unparseable [OF nok Unparseable] o
    show ?thesis using Unparseable by simp
  next
    case (Parsed j)
    from o have nok: "\<not> ok r" by simp
    show ?thesis
    proof (cases "j = JNull")
      case True
      with Parsed caught [OF f] try_block_http_null [OF nok, of E "loading st"] o
      show ?thesis by simp
    next
      case False
      with Parsed caught [OF f] try_block_http_parsed [OF nok Parsed False, of E "loading st"] o
      show ?thesis by simp
    qed
  qed
  have b': "message_visible (on_submit E outcome st) = (statusText r \<noteq> [])"
    if f: "fields_filled st"
      and o: "outcome = Resolved r \<and> \<not> ok r \<and> json_body r = Unparseable p" for r p
    using caught [OF f, of "statusText r"] try_block_http_unparseable [of r p E "loading st"] o
    by simp
  have c: "error_message (on_submit E outcome st) = p
       \<and> recommendations_hidden (on_submit E outcome st) = False
       \<and> message_visible (on_submit E outcome st) = (p \<noteq> [])"
    if f: "fields_filled st"
      and o: "outcome = Resolved r \<and> ok r \<and> json_body r = Unparseable p" for r p
    using caught [OF f, of p] try_block_ok_unparseable [of r p E "loading st"] o
    by simp
  have d: "error_message (on_submit E outcome st) =
           ''No player or team data found for your search in the selected week/year.''
       \<and> recommendations_hidden (on_submit E outcome st) = False
       \<and> message_visible (on_submit E outcome st)"
    if f: "fields_filled st"
      and o: "outcome = Resolved r \<and> ok r \<and> json_body r = Parsed (JArr [])" for r
    using shown [OF f, of
        "''No player or team data found for your search in the selected week/year.''"]
      try_block_ok_parsed [of r "JArr []" E "loading st"] o
    by (simp add: dispatch_empty)
  have e: "error_message (on_submit E outcome st) =
           (if data = JNull then type_error_message E (ReadNullish (Some JNull) ''length'')
            else ''Unexpected error: Received data is not a recognized list format.'')
       \<and> recommendations_hidden (on_submit E outcome st) = False
       \<and> (data \<noteq> JNull \<longrightarrow> message_visible (on_submit E outcome st))"
    if f: "fields_filled st"
      and o: "outcome = Resolved r \<and> ok r \<and> json_body r = Parsed data \<and> as_array data = None"
    for r data
  proof (cases "data = JNull")
    case True
    with o have "fst (try_block E outcome (loading st)) =
        Some (type_error_message E (ReadNullish (Some JNull) ''length''))"
      using try_block_ok_null [of r E "loading st"] by simp
    then obtain st' where tb: "try_block E outcome (loading st) =
        (Some (type_error_message E (ReadNullish (Some JNull) ''length'')), st')"
      by (cases "try_block E outcome (loading st)") simp
    from caught [OF f tb] True show ?thesis by simp
  next
    case False
    with shown [OF f, of
        "''Unexpected error: Received data is not a recognized list format.''"]
      try_block_ok_parsed [of r data E "loading st"] o
    show ?thesis
      by (simp add: dispatch_other)
  qed
  have g: "error_message (on_submit E outcome st) = ''Error: Single player data was null.''
       \<and> recommendations_hidden (on_submit E outcome st) = False
       \<and> message_visible (on_submit E outcome st)"
    if f: "fields_filled st"
      and o: "outcome = Resolved r \<and> ok r \<and> json_body r = Parsed (JArr [x])
               \<and> \<not> truthy (Some x)" for r x
    using shown [OF f, of "''Error: Single player data was null.''"]
      try_block_ok_parsed [of r "JArr [x]" E "loading st"] o
    by (simp add: dispatch_single)
  show ?thesis
  proof (intro conjI impI allI)
    show "error_message (on_submit E outcome st) = []"
      "recommendations_hidden (on_submit E outcome st) = True"
      "message_visible (on_submit E outcome st) = False"
      "effects (on_submit E outcome st) =
        effects st @
        [PreventDefault, Alert ''Please enter a player name/team, week, and year.'']"
      if "\<not> fields_filled st"
      using v [OF that] by simp_all
  qed (use a b b' c d e g caught in blast)+
qed

lemma no_week_page_unfilled: "\<not> fields_filled no_week_page"
  by (simp add: fields_filled_def no_week_page_def filled_page_def ustr_def trim_def
      is_white_space_def)

lemma blank_page_not_filled: "\<not> fields_filled blank_page"
  using blank_page_unfilled by (simp add: fields_filled_def)

theorem error_paths_show_message_witness:
  "error_message (on_submit v8 (Rejected ''Failed to fetch'') sample_page) = ''Failed to fetch''
   \<and> message_visible (on_submit v8 (Rejected ''Failed to fetch'') sample_page)
   \<and> error_message (on_submit v8 (failure ''BAD GATEWAY'' (Unparseable ''x'')) sample_page) =
       ''BAD GATEWAY''
   \<and> message_visible (on_submit v8 (failure ''BAD GATEWAY'' (Unparseable ''x'')) sample_page)
   \<and> error_message
        (on_submit v8 (Resolved \<lparr>ok = True, statusText = ''OK'', json_body = Unparseable ''x''\<rparr>)
           sample_page) = ''x''
   \<and> error_message (on_submit v8 (success (JArr [])) sample_page) =
       ''No player or team data found for your search in the selected week/year.''
   \<and> message_visible (on_submit v8 (success (JArr [])) sample_page)
   \<and> error_message (on_submit v8 (success (JStr ''x'')) sample_page) =
       ''Unexpected error: Received data is not a recognized list format.''
   \<and> message_visible (on_submit v8 (success (JStr ''x'')) sample_page)
   \<and> error_message (on_submit v8 (success (JArr [])) blank_page) = []
   \<and> recommendations_hidden (on_submit v8 (success (JArr [])) blank_page) = True"
proof -
  note t1 = error_paths_show_message [of sample_page v8 "Rejected ''Failed to fetch''",
      THEN conjunct2, rule_format, OF sample_page_filled]
  note t2 = error_paths_show_message [of sample_page v8
      "failure ''BAD GATEWAY'' (Unparseable ''x'')", THEN conjunct2, rule_format,
      OF sample_page_filled]
  note t3 = error_paths_show_message [of sample_page v8
      "Resolved \<lparr>ok = True, statusText = ''OK'', json_body = Unparseable ''x''\<rparr>",
      THEN conjunct2, rule_format, OF sample_page_filled]
  note t4 = error_paths_show_message [of sample_page v8 "success (JArr [])",
      THEN conjunct2, rule_format, OF sample_page_filled]
  note t5 = error_paths_show_message [of sample_page v8 "success (JStr ''x'')",
      THEN conjunct2, rule_format, OF sample_page_filled]
  note t6 = error_paths_show_message [of blank_page v8 "success (JArr [])",
      THEN conjunct1, rule_format, OF blank_page_not_filled]
  have "error_message (on_submit v8 (Rejected ''Failed to fetch'') sample_page) =
      ''Failed to fetch''
    \<and> message_visible (on_submit v8 (Rejected ''Failed to fetch'') sample_page)"
    using t1 [THEN conjunct1, rule_format, of "''Failed to fetch''"] by simp
  moreover have "error_message
        (on_submit v8 (failure ''BAD GATEWAY'' (Unparseable ''x'')) sample_page) = ''BAD GATEWAY''
    \<and> message_visible (on_submit v8 (failure ''BAD GATEWAY'' (Unparseable ''x'')) sample_page)"
    using t2 [THEN conjunct2, THEN conjunct1, rule_format,
              of "\<lparr>ok = False, statusText = ''BAD GATEWAY'', json_body = Unparseable ''x''\<rparr>"]
          t2 [THEN conjunct2, THEN conjunct2, THEN conjunct1, rule_format,
              of "\<lparr>ok = False, statusText = ''BAD GATEWAY'', json_body = Unparseable ''x''\<rparr>"
                 "''x''"]
    by (simp add: failure_def)
  moreover have "error_message
        (on_submit v8 (Resolved \<lparr>ok = True, statusText = ''OK'', json_body = Unparseable ''x''\<rparr>)
           sample_page) = ''x''"
    using t3 [THEN conjunct2, THEN conjunct2, THEN conjunct2, THEN conjunct1, rule_format,
              of "\<lparr>ok = True, statusText = ''OK'', json_body = Unparseable ''x''\<rparr>" "''x''"]
    by simp
  moreover have "error_message (on_submit v8 (success (JArr [])) sample_page) =
       ''No player or team data found for your search in the selected week/year.''
    \<and> message_visible (on_submit v8 (success (JArr [])) sample_page)"
    using t4 [THEN conjunct2, THEN conjunct2, THEN conjunct2, THEN conjunct2, THEN conjunct1,
              rule_format,
              of "\<lparr>ok = True, statusText = ''OK'', json_body = Parsed (JArr [])\<rparr>"]
    by (simp add: success_def)
  moreover have "error_message (on_submit v8 (success (JStr ''x'')) sample_page) =
       ''Unexpected error: Received data is not a recognized list format.''
    \<and> message_visible (on_submit v8 (success (JStr ''x'')) sample_page)"
    using t5 [THEN conjunct2, THEN conjunct2, THEN conjunct2, THEN conjunct2, THEN conjunct2,
              THEN conjunct1, rule_format,
              of "\<lparr>ok = True, statusText = ''OK'', json_body = Parsed (JStr ''x'')\<rparr>"
                 "JStr ''x''"]
    by (simp add: success_def as_array_def)
  moreover have "error_message (on_submit v8 (success (JArr [])) blank_page) = []
    \<and> recommendations_hidden (on_submit v8 (success (JArr [])) blank_page) = True"
    using t6 by simp
  ultimately show ?thesis
    by (intro conjI) (erule conjunct1 conjunct2 | assumption)+
qed

text \<open>The claim as stated fails on two paths. On the validation path (here with the week
  left blank) the error region stays empty and the results section stays hidden; the user
  is told by an alert. On an HTTP error whose body does not parse and whose status text is
  empty, as it is under HTTP/2, the section is revealed but the text written is empty, so
  no message is visible.\<close>

theorem error_not_visible_counterexample:
  "trim (week_input no_week_page) = []
   \<and> error_message (on_submit v8 (success two_players) no_week_page) = []
   \<and> recommendations_hidden (on_submit v8 (success two_players) no_week_page) = True
   \<and> effects (on_submit v8 (success two_players) no_week_page) =
       [PreventDefault, Alert ''Please enter a player name/team, week, and year.'']
   \<and> error_message (on_submit v8 (failure [] (Unparseable ''Unexpected token'')) sample_page)
       = []
   \<and> message_visible (on_submit v8 (failure [] (Unparseable ''Unexpected token'')) sample_page)
       = False"
proof -
  have "trim (week_input no_week_page) = []"
    by (simp add: no_week_page_def filled_page_def ustr_def trim_def is_white_space_def)
  moreover have "effects no_week_page = []"
    by (simp add: no_week_page_def filled_page_def)
  moreover have a: "\<not> ok \<lparr>ok = False, statusText = [],
        json_body = Unparseable ''Unexpected token''\<rparr>"
    and b: "json_body \<lparr>ok = False, statusText = [],
        json_body = Unparseable ''Unexpected token''\<rparr> = Unparseable ''Unexpected token''"
    by simp_all
  ultimately show ?thesis
    unfolding failure_def
    by (simp add: on_submit_unfilled [OF no_week_page_unfilled]
        on_submit_filled [OF sample_page_filled] try_block_http_unparseable [OF a b]
        message_visible_def)
qed

section \<open>The list view\<close>

lemma scored_iff:
  "scored p = (\<exists>kvs s. p = JObj kvs \<and> map_of kvs ''reco_score'' = Some (JNum (Fin s)))"
  by (cases p)
     (auto simp add: scored_def field_def split: option.splits json.splits jsnum.splits)

lemma the_score_record:
  "map_of kvs ''reco_score'' = Some (JNum (Fin s)) \<Longrightarrow> the_score (JObj kvs) = s"
  by (simp add: the_score_def field_def)

lemma compare_scores_records:
  assumes "scored a" "scored b"
  shows "compare_scores E a b = Inr (Fin (the_score b - the_score a))"
proof -
  from assms obtain ka sa kb sb where
    a: "a = JObj ka" "map_of ka ''reco_score'' = Some (JNum (Fin sa))" and
    b: "b = JObj kb" "map_of kb ''reco_score'' = Some (JNum (Fin sb))"
    unfolding scored_iff by blast
  then show ?thesis
    by (simp add: compare_scores_def get_prop_def ToNumber_def the_score_record)
qed

lemma insert_sorted_records:
  assumes "scored x" "\<forall>p\<in>set ys. scored p"
  shows "insert_sorted (compare_scores E) x ys = Inr (insort_key (\<lambda>p. - the_score p) x ys)"
  using assms(2)
proof (induction ys)
  case Nil
  show ?case by simp
next
  case (Cons y ys)
  then have y: "scored y" and ih:
    "insert_sorted (compare_scores E) x ys = Inr (insort_key (\<lambda>p. - the_score p) x ys)"
    by simp_all
  show ?case
    by (simp add: compare_scores_records [OF assms(1) y] ih)
qed

lemma array_sort_records:
  assumes "\<forall>p\<in>set xs. scored p"
  shows "array_sort (compare_scores E) xs = Inr (sort_key (\<lambda>p. - the_score p) xs)"
  using assms
proof (induction xs)
  case Nil
  show ?case by simp
next
  case (Cons x xs)
  then have x: "scored x"
    and ih: "array_sort (compare_scores E) xs = Inr (sort_key (\<lambda>p. - the_score p) xs)"
    and all: "\<forall>p\<in>set (sort_key (\<lambda>p. - the_score p) xs). scored p"
    by simp_all
  show ?case
    by (simp add: ih insert_sorted_records [OF x all])
qed

lemma player_record_parts:
  assumes "player_record E p"
  shows "scored p" "printable E (field p ''player_name'')" "printable E (field p ''position'')"
    "printable E (field p ''team'')" "printable E (field p ''reco_conclusion'')"
    "printable E (field p ''input_week'')"
  using assms by (simp_all add: player_record_def)

lemma card_of_record:
  assumes "player_record E p"
  shows "\<exists>c. createPlayerCardHTML E p = Inr c"
proof -
  from player_record_parts(1) [OF assms] obtain kvs s where
    p: "p = JObj kvs" "map_of kvs ''reco_score'' = Some (JNum (Fin s))"
    unfolding scored_iff by blast
  from player_record_parts(2-5) [OF assms] p(1)
  have "printable E (map_of kvs ''player_name'')" "printable E (map_of kvs ''position'')"
    "printable E (map_of kvs ''team'')" "printable E (map_of kvs ''reco_conclusion'')"
    by (simp_all add: field_def)
  from card_exists [OF _ _ this, of _ _] p show ?thesis
    by (simp add: scoreColor_number score_text_number)
qed

lemma cards_of_records:
  assumes "\<forall>p\<in>set ps. player_record E p"
  shows "\<exists>cs. map (createPlayerCardHTML E) ps = map Inr cs"
  using assms
proof (induction ps)
  case Nil
  show ?case by simp
next
  case (Cons p ps)
  from Cons.prems card_of_record [of E p] obtain c where "createPlayerCardHTML E p = Inr c"
    by auto
  moreover from Cons obtain cs where "map (createPlayerCardHTML E) ps = map Inr cs"
    by auto
  ultimately have "map (createPlayerCardHTML E) (p # ps) = map Inr (c # cs)"
    by simp
  then show ?case by blast
qed

lemma append_cards_built:
  "map (createPlayerCardHTML E) ps = map Inr cs \<Longrightarrow>
   append_cards E ps st = (None, st\<lparr>player_list := player_list st @ map Card cs\<rparr>)"
proof (induction ps arbitrary: cs st)
  case Nil
  then show ?case by simp
next
  case (Cons p ps)
  then obtain c cs' where cs: "cs = c # cs'" "createPlayerCardHTML E p = Inr c"
    "map (createPlayerCardHTML E) ps = map Inr cs'"
    by (cases cs) auto
  show ?case
    by (simp add: cs(1,2) Cons.IH [OF cs(3)])
qed

lemma renderPlayerList_records:
  assumes "\<forall>p\<in>set (first # rest). player_record E p"
  shows "\<exists>cs. map (createPlayerCardHTML E) (sort_key (\<lambda>p. - the_score p) (first # rest)) =
            map Inr cs
     \<and> fst (renderPlayerList E (first # rest) st) = None
     \<and> player_list (snd (renderPlayerList E (first # rest) st)) = map Card cs
     \<and> results_display (snd (renderPlayerList E (first # rest) st)) = ''none''
     \<and> recommendations_hidden (snd (renderPlayerList E (first # rest) st)) = False
     \<and> error_message (snd (renderPlayerList E (first # rest) st)) = error_message st
     \<and> detail (snd (renderPlayerList E (first # rest) st)) = detail st
     \<and> effects (snd (renderPlayerList E (first # rest) st)) = effects st"
proof -
  define ys where "ys = sort_key (\<lambda>p. - the_score p) (first # rest)"
  from assms have pr: "player_record E first" by simp
  from player_record_parts(1) [OF pr] have nn: "first \<noteq> JNull"
    unfolding scored_iff by auto
  from printable_Inr [OF player_record_parts(4) [OF pr]]
  obtain t where t: "ToString E (field first ''team'') = Inr t" by blast
  have "printable E (if truthy (field first ''input_week'') then field first ''input_week''
                     else Some (JStr ''N/A''))"
    using player_record_parts(6) [OF pr] by simp
  from printable_Inr [OF this]
  obtain w where w: "ToString E (if truthy (field first ''input_week'')
      then field first ''input_week'' else Some (JStr ''N/A'')) = Inr w" by blast
  have "set ys = set (first # rest)"
    unfolding ys_def by (rule set_sort)
  with assms have all: "\<forall>p\<in>set ys. player_record E p"
    by blast
  have "length ys = length (first # rest)"
    unfolding ys_def by (rule length_sort)
  then have ne: "ys \<noteq> []" by auto
  from assms have "\<forall>p\<in>set (first # rest). scored p"
    using player_record_parts(1) by blast
  then have srt: "array_sort (compare_scores E) (first # rest) = Inr ys"
    unfolding ys_def by (rule array_sort_records)
  from cards_of_records [OF all]
  obtain cs where cs: "map (createPlayerCardHTML E) ys = map Inr cs"
    by blast
  have "renderPlayerList E (first # rest) st =
      (None, list_shown (st\<lparr>player_list_header :=
           ''Top Fantasy Options for the '' @ t @ '' (Week '' @ w @ '')'',
         player_list := map Card cs\<rparr>))"
    unfolding renderPlayerList_def
    by (simp add: get_prop_field [OF nn] t w srt ne seq_unfold append_cards_built [OF cs]
        del: array_sort.simps)
  with cs show ?thesis
    unfolding ys_def [symmetric]
    by (simp add: list_shown_def)
qed

text \<open>
  Claim C3, amended. After a successful response whose body is an array of more than one
  player record (objects with a finite numeric \<^verbatim>\<open>reco_score\<close> whose printed
  properties convert to strings), the list holds one card per record, the cards of a
  rearrangement of the records in which the scores never increase; the detail box is hidden
  and the results section shown. For records with the scores 10, 90, 50 the cards come in
  the order 90, 50, 10.
\<close>

theorem list_view_descending:
  assumes "fields_filled st" "ok r" "json_body r = Parsed (JArr recs)" "1 < length recs"
    and "\<forall>p\<in>set recs. player_record E p"
  shows "\<exists>ys cs. mset ys = mset recs
      \<and> sorted_wrt (\<lambda>a b. the_score b \<le> the_score a) ys
      \<and> map (createPlayerCardHTML E) ys = map Inr cs
      \<and> player_list (on_submit E (Resolved r) st) = map Card cs
      \<and> (map the_score recs = [10, 90, 50] \<longrightarrow> map the_score ys = [90, 50, 10])
      \<and> results_display (on_submit E (Resolved r) st) = ''none''
      \<and> recommendations_hidden (on_submit E (Resolved r) st) = False
      \<and> error_message (on_submit E (Resolved r) st) = []"
proof -
  define ys where "ys = sort_key (\<lambda>p. - the_score p) recs"
  define st1 where "st1 = emit (ConsoleLog ''Array Length:'')
          (emit (ConsoleLog ''Is Array:'')
            (emit (ConsoleLog ''Received data:'')
              (emit (ConsoleLog ''--- ANALYSIS RESULTS ---'')
                (emit (Fetch (trim (player_input (loading st))) (trim (year_input (loading st)))
                         (trim (week_input (loading st)))) (loading st)))))"
  from assms(4) obtain first rest where recs: "recs = first # rest"
    by (cases recs) auto
  from renderPlayerList_records [of first rest E st1] assms(5) recs
  obtain cs where cs: "map (createPlayerCardHTML E) ys = map Inr cs"
    and rl: "fst (renderPlayerList E recs st1) = None"
      "player_list (snd (renderPlayerList E recs st1)) = map Card cs"
      "results_display (snd (renderPlayerList E recs st1)) = ''none''"
      "recommendations_hidden (snd (renderPlayerList E recs st1)) = False"
      "error_message (snd (renderPlayerList E recs st1)) = error_message st1"
    unfolding ys_def by blast
  obtain st2 where st2: "renderPlayerList E recs st1 = (None, st2)"
    using rl(1) by (cases "renderPlayerList E recs st1") simp
  have nn: "JArr recs \<noteq> JNull" by simp
  have tb: "try_block E (Resolved r) (loading st) = (None, emit ScrollTo st2)"
    using try_block_ok_parsed [OF assms(2,3) nn, of E "loading st"] st2
    by (simp add: dispatch_many [OF assms(4)] st1_def)
  have perm: "mset ys = mset recs"
    unfolding ys_def by (rule mset_sort)
  have "sorted (map (\<lambda>p. - the_score p) ys)"
    unfolding ys_def by (rule sorted_sort_key)
  then have desc: "sorted_wrt (\<lambda>a b. the_score b \<le> the_score a) ys"
    by (simp add: sorted_map)
  have ex: "map the_score ys = [90, 50, 10]" if "map the_score recs = [10, 90, 50]"
  proof -
    from that obtain a b c where "recs = [a, b, c]"
      "the_score a = 10" "the_score b = 90" "the_score c = 50"
      by auto
    then show ?thesis
      unfolding ys_def by simp
  qed
  have fin: "player_list (on_submit E (Resolved r) st) = map Card cs"
    "results_display (on_submit E (Resolved r) st) = ''none''"
    "recommendations_hidden (on_submit E (Resolved r) st) = False"
    "error_message (on_submit E (Resolved r) st) = []"
    using on_submit_normal(4,3,2,1) [OF assms(1) tb] rl(2-5) st2
    by (simp_all add: st1_def)
  show ?thesis
  proof (intro exI conjI impI)
    show "mset ys = mset recs" by (fact perm)
    show "sorted_wrt (\<lambda>a b. the_score b \<le> the_score a) ys" by (fact desc)
    show "map (createPlayerCardHTML E) ys = map Inr cs" by (fact cs)
    show "player_list (on_submit E (Resolved r) st) = map Card cs" by (fact fin(1))
    show "map the_score ys = [90, 50, 10]" if "map the_score recs = [10, 90, 50]"
      using that by (rule ex)
    show "results_display (on_submit E (Resolved r) st) = ''none''" by (fact fin(2))
    show "recommendations_hidden (on_submit E (Resolved r) st) = False" by (fact fin(3))
    show "error_message (on_submit E (Resolved r) st) = []" by (fact fin(4))
  qed
qed

theorem list_view_descending_witness:
  "(\<exists>ys cs. mset ys = mset [player ''A'' 10, player ''B'' 90, player ''C'' 50]
      \<and> sorted_wrt (\<lambda>a b. the_score b \<le> the_score a) ys
      \<and> map (createPlayerCardHTML v8) ys = map Inr cs
      \<and> player_list (on_submit v8 (success three_players) sample_page) = map Card cs
      \<and> map the_score ys = [90, 50, 10])
   \<and> results_display (on_submit v8 (success three_players) sample_page) = ''none''
   \<and> recommendations_hidden (on_submit v8 (success three_players) sample_page) = False"
proof -
  have a: "ok \<lparr>ok = True, statusText = ''OK'', json_body = Parsed (JArr xs)\<rparr>"
    and b: "json_body \<lparr>ok = True, statusText = ''OK'', json_body = Parsed (JArr xs)\<rparr> =
              Parsed (JArr xs)" for xs
    by simp_all
  have l: "1 < length [player ''A'' 10, player ''B'' 90, player ''C'' 50]"
    by simp
  have p: "\<forall>p\<in>set [player ''A'' 10, player ''B'' 90, player ''C'' 50]. player_record v8 p"
    by (simp add: player_record_def scored_def player_def field_def printable_def ToString_def)
  have s: "map the_score [player ''A'' 10, player ''B'' 90, player ''C'' 50] = [10, 90, 50]"
    by (simp add: the_score_def player_def field_def)
  note t = list_view_descending [OF sample_page_filled a b l p,
      unfolded success_def [symmetric] three_players_def [symmetric]]
  from t obtain ys cs where
    h: "mset ys = mset [player ''A'' 10, player ''B'' 90, player ''C'' 50]"
      "sorted_wrt (\<lambda>a b. the_score b \<le> the_score a) ys"
      "map (createPlayerCardHTML v8) ys = map Inr cs"
      "player_list (on_submit v8 (success three_players) sample_page) = map Card cs"
      "map the_score [player ''A'' 10, player ''B'' 90, player ''C'' 50] = [10, 90, 50]
         \<longrightarrow> map the_score ys = [90, 50, 10]"
      "results_display (on_submit v8 (success three_players) sample_page) = ''none''"
      "recommendations_hidden (on_submit v8 (success three_players) sample_page) = False"
    by (elim exE conjE)
  from h(5) s have "map the_score ys = [90, 50, 10]"
    by (rule mp)
  with h(1-4) have "\<exists>ys cs. mset ys = mset [player ''A'' 10, player ''B'' 90, player ''C'' 50]
      \<and> sorted_wrt (\<lambda>a b. the_score b \<le> the_score a) ys
      \<and> map (createPlayerCardHTML v8) ys = map Inr cs
      \<and> player_list (on_submit v8 (success three_players) sample_page) = map Card cs
      \<and> map the_score ys = [90, 50, 10]"
    by (intro exI conjI)
  with h(6,7) show ?thesis
    by (intro conjI)
qed

text \<open>The same example, evaluated: the three cards as they are rendered.\<close>

lemma three_players_rendered:
  "player_list (on_submit v8 (success three_players) sample_page) =
     [Card \<lparr>card_name = ''B'', card_position = ''WR'', card_team = ''KC'',
            card_scoreColor = ''text-green-500'', card_score = ''90.00'',
            card_conclusion = ''ok''\<rparr>,
      Card \<lparr>card_name = ''C'', card_position = ''WR'', card_team = ''KC'',
            card_scoreColor = ''text-yellow-400'', card_score = ''50.00'',
            card_conclusion = ''ok''\<rparr>,
      Card \<lparr>card_name = ''A'', card_position = ''WR'', card_team = ''KC'',
            card_scoreColor = ''text-red-500'', card_score = ''10.00'',
            card_conclusion = ''ok''\<rparr>]"
  unfolding three_players_def success_def
  by (simp add: on_submit_filled [OF sample_page_filled] try_block_def dispatch_def as_array_def
      renderPlayerList_def compare_scores_def get_prop_def player_def ToNumber_def
      createPlayerCardHTML_def score_text_def call_toFixed_def toFixed2_def digits.simps
      digit_char_def Let_def field_def js_or_def ToString_def num_to_string_def
      scoreColor_def js_ge_def list_shown_def seq_unfold)

text \<open>The claim as stated fails on arrays that hold something else than such records. On
  the body with a record without a score between the scores 10 and 90 the comparator
  answers \<^verbatim>\<open>NaN\<close> for every pair it is asked about and the three cards are rendered
  in the order received, 10 before 90. On the body with a \<^verbatim>\<open>null\<close> element the
  comparator throws, no card is rendered, and the message of the exception is shown.\<close>

theorem unsorted_list_counterexample:
  "player_list (on_submit v8 (success mixed_players) sample_page) =
     [Card \<lparr>card_name = ''A'', card_position = ''WR'', card_team = ''KC'',
            card_scoreColor = ''text-red-500'', card_score = ''10.00'',
            card_conclusion = ''ok''\<rparr>,
      Card \<lparr>card_name = ''X'', card_position = ''TE'', card_team = ''KC'',
            card_scoreColor = ''text-red-500'', card_score = ''--'',
            card_conclusion = ''none''\<rparr>,
      Card \<lparr>card_name = ''B'', card_position = ''WR'', card_team = ''KC'',
            card_scoreColor = ''text-green-500'', card_score = ''90.00'',
            card_conclusion = ''ok''\<rparr>]
   \<and> error_message (on_submit v8 (success mixed_players) sample_page) = []
   \<and> player_list (on_submit v8 (success null_among_players) sample_page) = []
   \<and> error_message (on_submit v8 (success null_among_players) sample_page) =
       ''Cannot read properties of null (reading '' @ [CHR 0x27] @ ''reco_score'' @
       [CHR 0x27] @ '')''"
  unfolding mixed_players_def null_among_players_def success_def unscored_def
  by (simp add: on_submit_filled [OF sample_page_filled] try_block_def dispatch_def as_array_def
      renderPlayerList_def compare_scores_def get_prop_def player_def ToNumber_def
      createPlayerCardHTML_def score_text_def call_toFixed_def toFixed2_def digits.simps
      digit_char_def Let_def field_def js_or_def ToString_def num_to_string_def
      scoreColor_def js_ge_def list_shown_def seq_unfold v8_def v8_message_def)

section \<open>An HTTP error without an error field\<close>

text \<open>For every parsed body other than \<^verbatim>\<open>null\<close> (an object without the property, or
  with a falsy one; a number, a string, a boolean, an array), the text shown is the status
  text.\<close>

lemma http_error_fallback:
  assumes "fields_filled st" "\<not> ok r" "json_body r = Parsed j" "j \<noteq> JNull"
    and "\<not> truthy (field j ''error'')"
  shows "error_message (on_submit E (Resolved r) st) = statusText r"
proof -
  have "either_text (ToString E (js_or (field j ''error'') (Some (JStr (statusText r))))) =
      statusText r"
    using assms(5) by (simp add: js_or_def ToString_def either_text_def)
  with try_block_http_parsed [OF assms(2,3,4), of E "loading st"]
  have "try_block E (Resolved r) (loading st) =
     (Some (statusText r),
      emit (Fetch (trim (player_input (loading st))) (trim (year_input (loading st)))
              (trim (week_input (loading st)))) (loading st))"
    by simp
  from on_submit_thrown(1) [OF assms(1) this] show ?thesis .
qed

text \<open>
  Claim C10. The claim fails on the body \<^verbatim>\<open>null\<close>, which parses and has no
  \<^verbatim>\<open>error\<close> field: reading \<^verbatim>\<open>errorData.error\<close> throws, the outer
  \<^verbatim>\<open>catch\<close> takes the \<^verbatim>\<open>TypeError\<close>, and the text shown is the engine's message,
  not the status text.
\<close>

theorem null_error_body_shows_type_error:
  "error_message (on_submit v8 (failure ''INTERNAL SERVER ERROR'' (Parsed JNull)) sample_page) =
     ''Cannot read properties of null (reading '' @ [CHR 0x27] @ ''error'' @ [CHR 0x27] @ '')''
   \<and> error_message (on_submit v8 (failure ''INTERNAL SERVER ERROR'' (Parsed JNull)) sample_page)
       \<noteq> ''INTERNAL SERVER ERROR''"
proof -
  have a: "\<not> ok \<lparr>ok = False, statusText = ''INTERNAL SERVER ERROR'', json_body = Parsed JNull\<rparr>"
    and b: "json_body \<lparr>ok = False, statusText = ''INTERNAL SERVER ERROR'',
                       json_body = Parsed JNull\<rparr> = Parsed JNull"
    by simp_all
  show ?thesis
    unfolding failure_def
    by (simp add: on_submit_filled [OF sample_page_filled] try_block_http_null [OF a b]
        v8_def v8_message_def)
qed

section \<open>An empty result\<close>

text \<open>What the handler does on the body \<^verbatim>\<open>[]\<close>: it sets the text, reveals the
  section, keeps the detail box hidden, scrolls, and logs no error. It does not touch the
  list or its header.\<close>

lemma empty_result_general:
  assumes "fields_filled st" "ok r" "json_body r = Parsed (JArr [])"
  shows "error_message (on_submit E (Resolved r) st) =
           ''No player or team data found for your search in the selected week/year.''"
    "recommendations_hidden (on_submit E (Resolved r) st) = False"
    "results_display (on_submit E (Resolved r) st) = ''none''"
    "player_list (on_submit E (Resolved r) st) = player_list st"
    "player_list_header (on_submit E (Resolved r) st) = player_list_header st"
    "detail (on_submit E (Resolved r) st) = detail st"
    "effects (on_submit E (Resolved r) st) =
       effects st @
       [PreventDefault,
        Fetch (trim (player_input st)) (trim (year_input st)) (trim (week_input st)),
        ConsoleLog ''--- ANALYSIS RESULTS ---'', ConsoleLog ''Received data:'',
        ConsoleLog ''Is Array:'', ConsoleLog ''Array Length:'', ScrollTo]"
proof -
  have nn: "JArr [] \<noteq> JNull" by simp
  note tb = try_block_ok_parsed [OF assms(2,3) nn, of E "loading st",
      unfolded dispatch_empty prod.case option.case]
  show "error_message (on_submit E (Resolved r) st) =
           ''No player or team data found for your search in the selected week/year.''"
    using on_submit_normal(1) [OF assms(1) tb] by simp
  show "recommendations_hidden (on_submit E (Resolved r) st) = False"
    using on_submit_normal(2) [OF assms(1) tb] by simp
  show "results_display (on_submit E (Resolved r) st) = ''none''"
    using on_submit_normal(3) [OF assms(1) tb] by simp
  show "player_list (on_submit E (Resolved r) st) = player_list st"
    using on_submit_normal(4) [OF assms(1) tb] by simp
  show "player_list_header (on_submit E (Resolved r) st) = player_list_header st"
    using on_submit_normal(5) [OF assms(1) tb] by simp
  show "detail (on_submit E (Resolved r) st) = detail st"
    using on_submit_normal(6) [OF assms(1) tb] by simp
  show "effects (on_submit E (Resolved r) st) =
       effects st @
       [PreventDefault,
        Fetch (trim (player_input st)) (trim (year_input st)) (trim (week_input st)),
        ConsoleLog ''--- ANALYSIS RESULTS ---'', ConsoleLog ''Received data:'',
        ConsoleLog ''Is Array:'', ConsoleLog ''Array Length:'', ScrollTo]"
    using on_submit_normal(7) [OF assms(1) tb] by simp
qed

text \<open>The page after a team search that answered with two records.\<close>

lemma two_players_rendered:
  "on_submit v8 (success two_players) sample_page =
     sample_page
       \<lparr>recommendations_hidden := False,
        player_list :=
          [Card \<lparr>card_name = ''B'', card_position = ''WR'', card_team = ''KC'',
                 card_scoreColor = ''text-green-500'', card_score = ''90.00'',
                 card_conclusion = ''ok''\<rparr>,
           Card \<lparr>card_name = ''A'', card_position = ''WR'', card_team = ''KC'',
                 card_scoreColor = ''text-red-500'', card_score = ''10.00'',
                 card_conclusion = ''ok''\<rparr>],
        player_list_header := ''Top Fantasy Options for the KC (Week 3)'',
        effects :=
          [PreventDefault, Fetch (ustr ''KC'') (ustr ''2024'') (ustr ''3''),
           ConsoleLog ''--- ANALYSIS RESULTS ---'', ConsoleLog ''Received data:'',
           ConsoleLog ''Is Array:'', ConsoleLog ''Array Length:'', ScrollTo]\<rparr>"
  unfolding two_players_def success_def
  by (simp add: on_submit_def try_block_def dispatch_def as_array_def
      renderPlayerList_def compare_scores_def get_prop_def player_def ToNumber_def
      createPlayerCardHTML_def score_text_def call_toFixed_def toFixed2_def digits.simps
      digit_char_def Let_def field_def js_or_def ToString_def scoreColor_def js_ge_def
      list_shown_def num_to_string_def emit_def loading_def restore_button_def
      sample_page_def filled_page_def ustr_def trim_def is_white_space_def seq_unfold)

text \<open>
  Claim C8. The claim fails on a page that still holds the cards of an earlier search:
  the handler reveals the results section for its message without emptying the list, so
  the two cards and their header are on show again next to the text that no data was
  found.
\<close>

theorem empty_result_keeps_old_cards:
  "error_message (on_submit v8 (success (JArr [])) (on_submit v8 (success two_players) sample_page))
     = ''No player or team data found for your search in the selected week/year.''
   \<and> recommendations_hidden
       (on_submit v8 (success (JArr [])) (on_submit v8 (success two_players) sample_page)) = False
   \<and> player_list
       (on_submit v8 (success (JArr [])) (on_submit v8 (success two_players) sample_page)) =
       [Card \<lparr>card_name = ''B'', card_position = ''WR'', card_team = ''KC'',
              card_scoreColor = ''text-green-500'', card_score = ''90.00'',
              card_conclusion = ''ok''\<rparr>,
        Card \<lparr>card_name = ''A'', card_position = ''WR'', card_team = ''KC'',
              card_scoreColor = ''text-red-500'', card_score = ''10.00'',
              card_conclusion = ''ok''\<rparr>]
   \<and> player_list_header
       (on_submit v8 (success (JArr [])) (on_submit v8 (success two_players) sample_page)) =
       ''Top Fantasy Options for the KC (Week 3)''"
proof -
  have f: "fields_filled (on_submit v8 (success two_players) sample_page)"
    using sample_page_filled
    by (simp add: two_players_rendered fields_filled_def)
  have a: "ok \<lparr>ok = True, statusText = ''OK'', json_body = Parsed (JArr [])\<rparr>"
    and b: "json_body \<lparr>ok = True, statusText = ''OK'', json_body = Parsed (JArr [])\<rparr> =
              Parsed (JArr [])"
    by simp_all
  note e = empty_result_general [OF f a b, of v8, folded success_def]
  show ?thesis
    unfolding e by (simp add: two_players_rendered)
qed

end
